theory Spec2Isabelle
  imports Complex_Main
begin

section \<open>Numbers, vectors, matrices and images\<close>

text \<open>
  The program computes on \<open>float\<close>. The embedding takes the real numbers for it, and its
  statements are about the arithmetic the code writes down, not about rounding. Where a
  statement depends on the infinities and on NaN, it is made on the numbers of the section
  on floating point numbers below, which takes the engine a second time. A \<open>cv::Matx<float, 1, n>\<close> or \<open>cv::Matx<float, n, 1>\<close> is the list of its
  entries, a \<open>cv::Matx<float, m, n>\<close> the list of its rows, a single channel \<open>cv::Mat\<close>
  the list of its pixel rows (row \<open>y\<close>, then column \<open>x\<close>). The shapes of the \<open>Matx\<close>
  values are static types of the program; the operations below are used on lists of the
  matching lengths only, which the theorems establish.
\<close>

type_synonym vec = "real list"
type_synonym mat = "real list list"
type_synonym image = "real list list"
type_synonym point = "real \<times> real"

definition vzeros :: "nat \<Rightarrow> vec" where
  "vzeros n = replicate n 0"

definition mzeros :: "nat \<Rightarrow> mat" where
  "mzeros n = replicate n (replicate n 0)"

definition vadd :: "vec \<Rightarrow> vec \<Rightarrow> vec" where
  "vadd u v = map2 (+) u v"

definition madd :: "mat \<Rightarrow> mat \<Rightarrow> mat" where
  "madd A B = map2 vadd A B"

definition vscale :: "vec \<Rightarrow> real \<Rightarrow> vec" where
  "vscale u c = map (\<lambda>a. a * c) u"

definition dot :: "vec \<Rightarrow> vec \<Rightarrow> real" where
  "dot u v = sum_list (map2 (*) u v)"

definition mat_col :: "'a list list \<Rightarrow> nat \<Rightarrow> 'a list" where
  "mat_col M j = map (\<lambda>r. r ! j) M"

text \<open>Row vector times a matrix of \<open>n\<close> columns: a row of \<open>n\<close> entries.\<close>

definition vec_mat :: "vec \<Rightarrow> mat \<Rightarrow> nat \<Rightarrow> vec" where
  "vec_mat v M n = map (\<lambda>j. dot v (mat_col M j)) [0..<n]"

text \<open>Matrix times a column vector.\<close>

definition mat_vec :: "mat \<Rightarrow> vec \<Rightarrow> vec" where
  "mat_vec M v = map (\<lambda>r. dot r v) M"

text \<open>\<open>sd.t() * sd\<close>: a column times a row.\<close>

definition outer :: "vec \<Rightarrow> vec \<Rightarrow> mat" where
  "outer u v = map (\<lambda>a. map (\<lambda>b. a * b) v) u"

definition img_size :: "'a list list \<Rightarrow> nat \<times> nat" where
  "img_size img = (length img, if img = [] then 0 else length (hd img))"

definition rect :: "'a list list \<Rightarrow> bool" where
  "rect img = list_all (\<lambda>r. length r = snd (img_size img)) img"

definition img_sub :: "image \<Rightarrow> image \<Rightarrow> image" where
  "img_sub A B = map2 (map2 (-)) A B"

definition img_scale :: "image \<Rightarrow> real \<Rightarrow> image" where
  "img_scale A c = map (map (\<lambda>a. a * c)) A"

text \<open>\<open>cv::mean\<close> of a single channel image: the sum of the pixels over their number, zero
  for an image without pixels.\<close>

definition mean :: "image \<Rightarrow> real" where
  "mean img = (let px = concat img in
     if px = [] then 0 else sum_list px / real (length px))"


section \<open>The warp\<close>

text \<open>
  \<open>imagealign/warp.h\<close> is not among the sources; the test file and the engine use it. The
  warp is therefore modelled from the specification, and checked against the requirements
  of the test file.
\<close>

datatype warp_kind = WARP_TRANSLATION | WARP_EUCLIDEAN

datatype error = WrongLength | Unprepared

record warp =
  kind :: warp_kind
  params :: vec

text \<open>Modelled from the spec: \<open>Warp<WarpType>::NParameters\<close> of the missing \<open>warp.h\<close>,
  2 for translation, 3 for Euclidean.\<close>

fun NParameters :: "warp_kind \<Rightarrow> nat" where
  "NParameters WARP_TRANSLATION = 2"
| "NParameters WARP_EUCLIDEAN = 3"

text \<open>Modelled from the spec: \<open>setIdentity\<close> of the missing \<open>warp.h\<close>, which sets all
  parameters to the neutral value.\<close>

definition setIdentity :: "warp \<Rightarrow> warp" where
  "setIdentity w = w\<lparr>params := replicate (NParameters (kind w)) 0\<rparr>"

text \<open>Modelled from the spec: \<open>getParameters\<close> of the missing \<open>warp.h\<close>.\<close>

definition getParameters :: "warp \<Rightarrow> vec" where
  "getParameters w = params w"

text \<open>Modelled from the spec: \<open>setParameters\<close> of the missing \<open>warp.h\<close>. It requires a
  vector of \<open>NParameters\<close> entries and fails loudly on any other, without truncating.\<close>

definition setParameters :: "warp \<Rightarrow> vec \<Rightarrow> error + warp" where
  "setParameters w v =
     (if length v = NParameters (kind w) then Inr (w\<lparr>params := v\<rparr>) else Inl WrongLength)"

definition wf_warp :: "warp \<Rightarrow> bool" where
  "wf_warp w = (length (params w) = NParameters (kind w))"

definition rotation :: "real \<Rightarrow> mat" where
  "rotation \<theta> = [[cos \<theta>, - sin \<theta>], [sin \<theta>, cos \<theta>]]"

text \<open>Modelled from the spec: \<open>apply\<close> (the call operator \<open>w(x)\<close> of the test file) of the
  missing \<open>warp.h\<close>: \<open>p + (t_x, t_y)\<close> for translation, \<open>R(\<theta>) p + (t_x, t_y)\<close> for
  Euclidean, with parameter order \<open>(t_x, t_y, \<theta>)\<close>.\<close>

definition warp_apply :: "warp \<Rightarrow> point \<Rightarrow> point" where
  "warp_apply w p =
     (let t = [params w ! 0, params w ! 1];
          q = (case kind w of
                 WARP_TRANSLATION \<Rightarrow> vadd [fst p, snd p] t
               | WARP_EUCLIDEAN \<Rightarrow> vadd (mat_vec (rotation (params w ! 2)) [fst p, snd p]) t)
      in (q ! 0, q ! 1))"

text \<open>Modelled from the spec: \<open>jacobian(point)\<close> of the missing \<open>warp.h\<close>, the partial
  derivatives of \<open>apply(point)\<close> by each parameter at the current parameter values, a matrix
  of 2 rows and \<open>NParameters\<close> columns: the identity for translation; for Euclidean the
  third column is the derivative of the rotated point by the angle.\<close>

definition jacobian :: "warp \<Rightarrow> point \<Rightarrow> mat" where
  "jacobian w p =
     (case kind w of
        WARP_TRANSLATION \<Rightarrow> [[1, 0], [0, 1]]
      | WARP_EUCLIDEAN \<Rightarrow>
          (let \<theta> = params w ! 2 in
             [[1, 0, - sin \<theta> * fst p - cos \<theta> * snd p],
              [0, 1, cos \<theta> * fst p - sin \<theta> * snd p]]))"


section \<open>The alignment engine\<close>

text \<open>The members of \<open>AlignForwardAdditive\<close>, under their names without the underscore.\<close>

record engine =
  template :: image
  target :: image
  warpedTarget :: image
  errorImage :: image
  gradX :: image
  gradY :: image
  warpedGradX :: image
  warpedGradY :: image

text \<open>\<open>cv::Mat::create\<close>: keeps a buffer that has the size asked for, allocates otherwise.
  The content of a fresh buffer is not initialised in the program; the zero image stands for
  it, and \<open>align\<close> overwrites each buffer before it reads it.\<close>

definition create :: "nat \<times> nat \<Rightarrow> image \<Rightarrow> image" where
  "create sz old =
     (if img_size old = sz then old else replicate (fst sz) (replicate (snd sz) 0))"

text \<open>\<open>prepare\<close>. The images are single channel by their type, so the two \<open>CV_Assert\<close>
  hold; \<open>convertTo(_, CV_32F)\<close> is the identity on real valued pixels. \<open>cv::Sobel\<close> is the
  parameter \<open>sobel\<close>, called with the derivative orders \<open>(1, 0)\<close> and \<open>(0, 1)\<close>.\<close>

definition prepare :: "(image \<Rightarrow> nat \<Rightarrow> nat \<Rightarrow> image) \<Rightarrow> engine \<Rightarrow> image \<Rightarrow> image \<Rightarrow> engine" where
  "prepare sobel E tmpl tgt =
     E\<lparr>template := tmpl,
       target := tgt,
       warpedTarget := create (img_size tmpl) (warpedTarget E),
       errorImage := create (img_size tmpl) (errorImage E),
       warpedGradX := create (img_size tmpl) (warpedGradX E),
       warpedGradY := create (img_size tmpl) (warpedGradY E),
       gradX := img_scale (sobel tgt 1 0) 0.125,
       gradY := img_scale (sobel tgt 0 1) 0.125\<rparr>"

text \<open>Modelled from the spec: \<open>warpImage\<close> of the missing \<open>imagealign/bilinear.h\<close>. For every
  pixel \<open>p\<close> of the output, of the size asked for, it samples the source at \<open>warp.apply(p)\<close>.
  The interpolation and the policy outside the source are the parameter \<open>sample\<close>.\<close>

definition warpImage :: "(image \<Rightarrow> point \<Rightarrow> real) \<Rightarrow> image \<Rightarrow> nat \<times> nat \<Rightarrow> warp \<Rightarrow> image" where
  "warpImage sample src sz w =
     map (\<lambda>y. map (\<lambda>x. sample src (warp_apply w (real x, real y))) [0..<snd sz]) [0..<fst sz]"

text \<open>The body of the inner loop of \<open>align\<close>, at column \<open>x\<close> of the rows \<open>gxRow\<close>, \<open>gyRow\<close>
  and \<open>eRow\<close>; the accumulators are \<open>sumSDITimesError\<close> and \<open>hessian\<close>, \<open>n\<close> is
  \<open>NParameters\<close>.\<close>

definition pixel_step :: "mat \<Rightarrow> nat \<Rightarrow> vec \<Rightarrow> vec \<Rightarrow> vec \<Rightarrow> nat \<Rightarrow> vec \<times> mat \<Rightarrow> vec \<times> mat" where
  "pixel_step J n gxRow gyRow eRow x acc =
     (let sd = vec_mat [gxRow ! x, gyRow ! x] J n
      in (vadd (fst acc) (vscale sd (eRow ! x)), madd (snd acc) (outer sd sd)))"

text \<open>The body of the outer loop, at row \<open>y\<close>.\<close>

definition row_step :: "mat \<Rightarrow> nat \<Rightarrow> nat \<Rightarrow> image \<Rightarrow> image \<Rightarrow> image \<Rightarrow> nat \<Rightarrow> vec \<times> mat \<Rightarrow> vec \<times> mat" where
  "row_step J n cols wgx wgy err y acc =
     fold (pixel_step J n (wgx ! y) (wgy ! y) (err ! y)) [0..<cols] acc"

text \<open>The loop over the template region, from zero accumulators.\<close>

definition accumulate :: "mat \<Rightarrow> nat \<Rightarrow> nat \<times> nat \<Rightarrow> image \<Rightarrow> image \<Rightarrow> image \<Rightarrow> vec \<times> mat" where
  "accumulate J n sz wgx wgy err =
     fold (row_step J n (snd sz) wgx wgy err) [0..<fst sz] (vzeros n, mzeros n)"

text \<open>What \<open>align\<close> relies on: the three buffers it warps into have the size of the
  template, as \<open>prepare\<close> leaves them.\<close>

definition sizes_ok :: "engine \<Rightarrow> bool" where
  "sizes_ok E =
     (img_size (warpedTarget E) = img_size (template E)
      \<and> img_size (warpedGradX E) = img_size (template E)
      \<and> img_size (warpedGradY E) = img_size (template E))"

text \<open>
  \<open>align\<close>. Its parameters stand for what the sources do not hold: \<open>sample\<close> (see
  \<open>warpImage\<close>), \<open>jacobian_of\<close> for the call \<open>w.jacobian()\<close>, which passes no point, and
  \<open>matx_inv\<close> for \<open>cv::Matx::inv\<close>. The engine and the warp are passed and returned. Where
  the buffers do not have the size of the template, the subtraction of the images throws
  and the row pointers leave their buffers in the program: that is \<open>Unprepared\<close> here.
\<close>

definition align ::
  "(image \<Rightarrow> point \<Rightarrow> real) \<Rightarrow> (warp \<Rightarrow> mat) \<Rightarrow> (mat \<Rightarrow> mat) \<Rightarrow> engine \<Rightarrow> warp
     \<Rightarrow> error + engine \<times> warp \<times> real" where
  "align sample jacobian_of matx_inv E w =
     (if \<not> sizes_ok E then Inl Unprepared
      else
        let wt = warpImage sample (target E) (img_size (warpedTarget E)) w;
            wgx = warpImage sample (gradX E) (img_size (warpedGradX E)) w;
            wgy = warpImage sample (gradY E) (img_size (warpedGradY E)) w;
            err = img_sub (template E) wt;
            J = jacobian_of w;
            n = NParameters (kind w);
            acc = accumulate J n (img_size (template E)) wgx wgy err;
            delta = mat_vec (matx_inv (snd acc)) (fst acc)
        in case setParameters w (vadd (getParameters w) delta) of
             Inl e \<Rightarrow> Inl e
           | Inr w' \<Rightarrow>
               Inr (E\<lparr>warpedTarget := wt, warpedGradX := wgx, warpedGradY := wgy,
                      errorImage := err\<rparr>, w', mean err))"

text \<open>A prepared engine: its images are rectangular, as every \<open>cv::Mat\<close> is, and the
  buffers have the size of the template.\<close>

definition prepared :: "engine \<Rightarrow> bool" where
  "prepared E = (rect (template E) \<and> sizes_ok E)"


section \<open>The sums of the step, and the step of the specification\<close>

text \<open>The pixels of an image of the given size, row by row.\<close>

definition pixels :: "nat \<times> nat \<Rightarrow> (nat \<times> nat) list" where
  "pixels sz = concat (map (\<lambda>y. map (\<lambda>x. (x, y)) [0..<snd sz]) [0..<fst sz])"

text \<open>The target, or a gradient of it, resampled under the warp, at pixel \<open>(x, y)\<close>.\<close>

definition resampled :: "(image \<Rightarrow> point \<Rightarrow> real) \<Rightarrow> image \<Rightarrow> warp \<Rightarrow> nat \<times> nat \<Rightarrow> real" where
  "resampled sample src w p = sample src (warp_apply w (real (fst p), real (snd p)))"

text \<open>\<open>error(p) = template(p) - resampledTarget(p)\<close>.\<close>

definition error_at :: "(image \<Rightarrow> point \<Rightarrow> real) \<Rightarrow> engine \<Rightarrow> warp \<Rightarrow> nat \<times> nat \<Rightarrow> real" where
  "error_at sample E w p = template E ! snd p ! fst p - resampled sample (target E) w p"

text \<open>The steepest descent row of a pixel for the Jacobian \<open>J\<close>:
  \<open>[gradX(p), gradY(p)] \<cdot> J\<close>.\<close>

definition sd_at :: "(image \<Rightarrow> point \<Rightarrow> real) \<Rightarrow> mat \<Rightarrow> engine \<Rightarrow> warp \<Rightarrow> nat \<times> nat \<Rightarrow> vec" where
  "sd_at sample J E w p =
     vec_mat [resampled sample (gradX E) w p, resampled sample (gradY E) w p] J
       (NParameters (kind w))"

text \<open>\<open>Hessian = \<Sigma> sd(p)\<^sup>t \<cdot> sd(p)\<close> and \<open>rhs = \<Sigma> sd(p)\<^sup>t \<cdot> error(p)\<close>, entry by entry, over
  the pixels \<open>ps\<close>.\<close>

definition hessian_sum :: "nat \<Rightarrow> ((nat \<times> nat) \<Rightarrow> vec) \<Rightarrow> (nat \<times> nat) list \<Rightarrow> mat" where
  "hessian_sum n sd ps =
     map (\<lambda>i. map (\<lambda>j. sum_list (map (\<lambda>p. sd p ! i * sd p ! j) ps)) [0..<n]) [0..<n]"

definition rhs_sum :: "nat \<Rightarrow> ((nat \<times> nat) \<Rightarrow> vec) \<Rightarrow> ((nat \<times> nat) \<Rightarrow> real) \<Rightarrow> (nat \<times> nat) list \<Rightarrow> vec" where
  "rhs_sum n sd e ps = map (\<lambda>i. sum_list (map (\<lambda>p. sd p ! i * e p) ps)) [0..<n]"

text \<open>The update that \<open>align\<close> computes, in closed form: the sums are taken over the
  rows \<open>[gradX(p), gradY(p)] \<cdot> J\<close> for the one matrix \<open>J\<close> of the call \<open>w.jacobian()\<close>.
  It is the step of the specification only where that matrix is the Jacobian at every
  pixel.\<close>

definition align_delta ::
  "(image \<Rightarrow> point \<Rightarrow> real) \<Rightarrow> (warp \<Rightarrow> mat) \<Rightarrow> (mat \<Rightarrow> mat) \<Rightarrow> engine \<Rightarrow> warp \<Rightarrow> vec" where
  "align_delta sample jacobian_of matx_inv E w =
     (let n = NParameters (kind w);
          ps = pixels (img_size (template E));
          sd = sd_at sample (jacobian_of w) E w
      in mat_vec (matx_inv (hessian_sum n sd ps)) (rhs_sum n sd (error_at sample E w) ps))"

text \<open>The scratch buffers as one \<open>align\<close> call leaves them.\<close>

definition rewritten :: "(image \<Rightarrow> point \<Rightarrow> real) \<Rightarrow> engine \<Rightarrow> warp \<Rightarrow> engine" where
  "rewritten sample E w =
     E\<lparr>warpedTarget := warpImage sample (target E) (img_size (template E)) w,
       warpedGradX := warpImage sample (gradX E) (img_size (template E)) w,
       warpedGradY := warpImage sample (gradY E) (img_size (template E)) w,
       errorImage := img_sub (template E)
                       (warpImage sample (target E) (img_size (template E)) w)\<rparr>"


text \<open>The steepest descent row of the specification, with the Jacobian of the warp at
  the pixel itself.\<close>

definition sd_pointwise :: "(image \<Rightarrow> point \<Rightarrow> real) \<Rightarrow> engine \<Rightarrow> warp \<Rightarrow> nat \<times> nat \<Rightarrow> vec" where
  "sd_pointwise sample E w p = sd_at sample (jacobian w (real (fst p), real (snd p))) E w p"

text \<open>The Gauss-Newton step of the specification: \<open>delta = Hessian\<^sup>-\<^sup>1 \<cdot> rhs\<close> with
  \<open>Hessian = \<Sigma> sd(p)\<^sup>t \<cdot> sd(p)\<close> and \<open>rhs = \<Sigma> sd(p)\<^sup>t \<cdot> error(p)\<close> over the pixels of the
  template, for the rows \<open>sd(p) = [gradX(p), gradY(p)] \<cdot> jacobian(p)\<close>.\<close>

definition gauss_newton_delta ::
  "(image \<Rightarrow> point \<Rightarrow> real) \<Rightarrow> (mat \<Rightarrow> mat) \<Rightarrow> engine \<Rightarrow> warp \<Rightarrow> vec" where
  "gauss_newton_delta sample matx_inv E w =
     (let n = NParameters (kind w);
          ps = pixels (img_size (template E));
          sd = sd_pointwise sample E w
      in mat_vec (matx_inv (hessian_sum n sd ps)) (rhs_sum n sd (error_at sample E w) ps))"

text \<open>The mean of the signed errors over the pixels of the template.\<close>

definition mean_error :: "(image \<Rightarrow> point \<Rightarrow> real) \<Rightarrow> engine \<Rightarrow> warp \<Rightarrow> real" where
  "mean_error sample E w =
     (let ps = pixels (img_size (template E))
      in if ps = [] then 0 else sum_list (map (error_at sample E w) ps) / real (length ps))"

text \<open>The determinant, by expansion along the first row.\<close>

fun det :: "mat \<Rightarrow> real" where
  "det [] = 1"
| "det (r # rs) =
     (\<Sum>j\<leftarrow>[0..<length r].
        (- 1) ^ j * r ! j * det (map (\<lambda>row. take j row @ drop (Suc j) row) rs))"


section \<open>The engine on floating point numbers\<close>

text \<open>
  Over the real numbers a product with zero is zero. In the program it is not, where the
  other factor is an infinity or not a number. This section takes the engine once more,
  line by line as above, on the numbers of \<open>float\<close> with their special values: a finite
  real, the two infinities, and NaN. A result of a magnitude that \<open>float\<close> rounds to an
  infinity is that infinity; a finite result is not rounded, zero has no sign and there
  are no subnormal numbers.
\<close>

datatype fl = Fin real | PInf | NInf | NaN

text \<open>The least magnitude that rounds to an infinity in binary32.\<close>

definition overflow_bound :: real where
  "overflow_bound = 2 ^ 128 - 2 ^ 103"

definition ovf :: "real \<Rightarrow> fl" where
  "ovf r = (if overflow_bound \<le> r then PInf else if r \<le> - overflow_bound then NInf else Fin r)"

fun is_fin :: "fl \<Rightarrow> bool" where
  "is_fin (Fin a) = True"
| "is_fin _ = False"

text \<open>A value of \<open>float\<close>: a special value, or a finite number below the bound.\<close>

fun representable :: "fl \<Rightarrow> bool" where
  "representable (Fin a) = (\<bar>a\<bar> < overflow_bound)"
| "representable _ = True"

text \<open>The operations on these values, with the results that IEEE 754 gives where a
  special value takes part.\<close>

fun fneg :: "fl \<Rightarrow> fl" where
  "fneg (Fin a) = Fin (- a)"
| "fneg PInf = NInf"
| "fneg NInf = PInf"
| "fneg NaN = NaN"

fun fadd :: "fl \<Rightarrow> fl \<Rightarrow> fl" where
  "fadd NaN _ = NaN"
| "fadd _ NaN = NaN"
| "fadd (Fin a) (Fin b) = ovf (a + b)"
| "fadd PInf NInf = NaN"
| "fadd NInf PInf = NaN"
| "fadd PInf _ = PInf"
| "fadd _ PInf = PInf"
| "fadd NInf _ = NInf"
| "fadd _ NInf = NInf"

definition fsub :: "fl \<Rightarrow> fl \<Rightarrow> fl" where
  "fsub a b = fadd a (fneg b)"

fun fmul :: "fl \<Rightarrow> fl \<Rightarrow> fl" where
  "fmul NaN _ = NaN"
| "fmul _ NaN = NaN"
| "fmul (Fin a) (Fin b) = ovf (a * b)"
| "fmul (Fin a) PInf = (if a = 0 then NaN else if 0 < a then PInf else NInf)"
| "fmul (Fin a) NInf = (if a = 0 then NaN else if 0 < a then NInf else PInf)"
| "fmul PInf (Fin b) = (if b = 0 then NaN else if 0 < b then PInf else NInf)"
| "fmul NInf (Fin b) = (if b = 0 then NaN else if 0 < b then NInf else PInf)"
| "fmul PInf PInf = PInf"
| "fmul PInf NInf = NInf"
| "fmul NInf PInf = NInf"
| "fmul NInf NInf = PInf"

fun fdiv :: "fl \<Rightarrow> fl \<Rightarrow> fl" where
  "fdiv NaN _ = NaN"
| "fdiv _ NaN = NaN"
| "fdiv (Fin a) (Fin b) =
     (if b = 0 then (if a = 0 then NaN else if 0 < a then PInf else NInf) else ovf (a / b))"
| "fdiv (Fin a) _ = Fin 0"
| "fdiv PInf (Fin b) = (if 0 \<le> b then PInf else NInf)"
| "fdiv NInf (Fin b) = (if 0 \<le> b then NInf else PInf)"
| "fdiv _ _ = NaN"

definition fvzeros :: "nat \<Rightarrow> fl list" where
  "fvzeros n = replicate n (Fin 0)"

definition fmzeros :: "nat \<Rightarrow> fl list list" where
  "fmzeros n = replicate n (replicate n (Fin 0))"

definition fvadd :: "fl list \<Rightarrow> fl list \<Rightarrow> fl list" where
  "fvadd u v = map2 fadd u v"

definition fmadd :: "fl list list \<Rightarrow> fl list list \<Rightarrow> fl list list" where
  "fmadd A B = map2 fvadd A B"

definition fvscale :: "fl list \<Rightarrow> fl \<Rightarrow> fl list" where
  "fvscale u c = map (\<lambda>a. fmul a c) u"

text \<open>An entry of a \<open>Matx\<close> product: the products are added one by one, from zero.\<close>

definition fdot :: "fl list \<Rightarrow> fl list \<Rightarrow> fl" where
  "fdot u v = foldl fadd (Fin 0) (map2 fmul u v)"

definition fvec_mat :: "fl list \<Rightarrow> fl list list \<Rightarrow> nat \<Rightarrow> fl list" where
  "fvec_mat v M n = map (\<lambda>j. fdot v (mat_col M j)) [0..<n]"

definition fmat_vec :: "fl list list \<Rightarrow> fl list \<Rightarrow> fl list" where
  "fmat_vec M v = map (\<lambda>r. fdot r v) M"

text \<open>\<open>sd.t() * sd\<close>: a product of matrices, each entry a sum of one product.\<close>

definition fouter :: "fl list \<Rightarrow> fl list \<Rightarrow> fl list list" where
  "fouter u v = map (\<lambda>a. map (\<lambda>b. fdot [a] [b]) v) u"

definition fimg_sub :: "fl list list \<Rightarrow> fl list list \<Rightarrow> fl list list" where
  "fimg_sub A B = map2 (map2 fsub) A B"

text \<open>The sum of \<open>cv::mean\<close> is taken in \<open>double\<close>, where a sum of pixels does not overflow;
  the mean returns to \<open>float\<close> at the end.\<close>

fun dadd :: "fl \<Rightarrow> fl \<Rightarrow> fl" where
  "dadd (Fin a) (Fin b) = Fin (a + b)"
| "dadd a b = fadd a b"

definition fmean :: "fl list list \<Rightarrow> fl" where
  "fmean img = (let px = concat img in
     if px = [] then Fin 0
     else case foldl dadd (Fin 0) px of
            Fin t \<Rightarrow> ovf (t / real (length px))
          | x \<Rightarrow> x)"

text \<open>The warp and the members of the engine, as above.\<close>

record fwarp =
  fkind :: warp_kind
  fparams :: "fl list"

definition fgetParameters :: "fwarp \<Rightarrow> fl list" where
  "fgetParameters w = fparams w"

definition fsetParameters :: "fwarp \<Rightarrow> fl list \<Rightarrow> error + fwarp" where
  "fsetParameters w v =
     (if length v = NParameters (fkind w) then Inr (w\<lparr>fparams := v\<rparr>) else Inl WrongLength)"

definition fwf_warp :: "fwarp \<Rightarrow> bool" where
  "fwf_warp w = (length (fparams w) = NParameters (fkind w) \<and> list_all representable (fparams w))"

record fengine =
  ftemplate :: "fl list list"
  ftarget :: "fl list list"
  fwarpedTarget :: "fl list list"
  ferrorImage :: "fl list list"
  fgradX :: "fl list list"
  fgradY :: "fl list list"
  fwarpedGradX :: "fl list list"
  fwarpedGradY :: "fl list list"

text \<open>Modelled from the spec: \<open>warpImage\<close> of the missing \<open>imagealign/bilinear.h\<close>, as above.
  The parameter \<open>sample\<close> is the value of the source at \<open>warp.apply(p)\<close>, for the pixel \<open>p\<close>
  of the output: it stands for the map of the warp on these numbers and for the
  interpolation.\<close>

definition fwarpImage ::
  "(fl list list \<Rightarrow> fwarp \<Rightarrow> nat \<times> nat \<Rightarrow> fl) \<Rightarrow> fl list list \<Rightarrow> nat \<times> nat \<Rightarrow> fwarp
     \<Rightarrow> fl list list" where
  "fwarpImage sample src sz w =
     map (\<lambda>y. map (\<lambda>x. sample src w (x, y)) [0..<snd sz]) [0..<fst sz]"

text \<open>The loop over the template region, as above.\<close>

definition fpixel_step ::
  "fl list list \<Rightarrow> nat \<Rightarrow> fl list \<Rightarrow> fl list \<Rightarrow> fl list \<Rightarrow> nat
     \<Rightarrow> fl list \<times> fl list list \<Rightarrow> fl list \<times> fl list list" where
  "fpixel_step J n gxRow gyRow eRow x acc =
     (let sd = fvec_mat [gxRow ! x, gyRow ! x] J n
      in (fvadd (fst acc) (fvscale sd (eRow ! x)), fmadd (snd acc) (fouter sd sd)))"

definition frow_step ::
  "fl list list \<Rightarrow> nat \<Rightarrow> nat \<Rightarrow> fl list list \<Rightarrow> fl list list \<Rightarrow> fl list list \<Rightarrow> nat
     \<Rightarrow> fl list \<times> fl list list \<Rightarrow> fl list \<times> fl list list" where
  "frow_step J n cols wgx wgy err y acc =
     fold (fpixel_step J n (wgx ! y) (wgy ! y) (err ! y)) [0..<cols] acc"

definition faccumulate ::
  "fl list list \<Rightarrow> nat \<Rightarrow> nat \<times> nat \<Rightarrow> fl list list \<Rightarrow> fl list list \<Rightarrow> fl list list
     \<Rightarrow> fl list \<times> fl list list" where
  "faccumulate J n sz wgx wgy err =
     fold (frow_step J n (snd sz) wgx wgy err) [0..<fst sz] (fvzeros n, fmzeros n)"

definition fsizes_ok :: "fengine \<Rightarrow> bool" where
  "fsizes_ok E =
     (img_size (fwarpedTarget E) = img_size (ftemplate E)
      \<and> img_size (fwarpedGradX E) = img_size (ftemplate E)
      \<and> img_size (fwarpedGradY E) = img_size (ftemplate E))"

text \<open>\<open>align\<close> on these numbers; \<open>sample\<close>, \<open>jacobian_of\<close> and \<open>matx_inv\<close> are its parameters
  as above.\<close>

definition falign ::
  "(fl list list \<Rightarrow> fwarp \<Rightarrow> nat \<times> nat \<Rightarrow> fl) \<Rightarrow> (fwarp \<Rightarrow> fl list list)
     \<Rightarrow> (fl list list \<Rightarrow> fl list list) \<Rightarrow> fengine \<Rightarrow> fwarp
     \<Rightarrow> error + fengine \<times> fwarp \<times> fl" where
  "falign sample jacobian_of matx_inv E w =
     (if \<not> fsizes_ok E then Inl Unprepared
      else
        let wt = fwarpImage sample (ftarget E) (img_size (fwarpedTarget E)) w;
            wgx = fwarpImage sample (fgradX E) (img_size (fwarpedGradX E)) w;
            wgy = fwarpImage sample (fgradY E) (img_size (fwarpedGradY E)) w;
            err = fimg_sub (ftemplate E) wt;
            J = jacobian_of w;
            n = NParameters (fkind w);
            acc = faccumulate J n (img_size (ftemplate E)) wgx wgy err;
            delta = fmat_vec (matx_inv (snd acc)) (fst acc)
        in case fsetParameters w (fvadd (fgetParameters w) delta) of
             Inl e \<Rightarrow> Inl e
           | Inr w' \<Rightarrow>
               Inr (E\<lparr>fwarpedTarget := wt, fwarpedGradX := wgx, fwarpedGradY := wgy,
                      ferrorImage := err\<rparr>, w', fmean err))"

definition fprepared :: "fengine \<Rightarrow> bool" where
  "fprepared E = (rect (ftemplate E) \<and> fsizes_ok E)"

text \<open>The steepest descent row that the loop builds at a pixel, and the Hessian and right
  hand side it accumulates.\<close>

definition fsd_at ::
  "(fl list list \<Rightarrow> fwarp \<Rightarrow> nat \<times> nat \<Rightarrow> fl) \<Rightarrow> fl list list \<Rightarrow> fengine \<Rightarrow> fwarp
     \<Rightarrow> nat \<times> nat \<Rightarrow> fl list" where
  "fsd_at sample J E w p =
     fvec_mat [sample (fgradX E) w p, sample (fgradY E) w p] J (NParameters (fkind w))"

definition faccumulated ::
  "(fl list list \<Rightarrow> fwarp \<Rightarrow> nat \<times> nat \<Rightarrow> fl) \<Rightarrow> (fwarp \<Rightarrow> fl list list) \<Rightarrow> fengine \<Rightarrow> fwarp
     \<Rightarrow> fl list \<times> fl list list" where
  "faccumulated sample jacobian_of E w =
     faccumulate (jacobian_of w) (NParameters (fkind w)) (img_size (ftemplate E))
       (fwarpImage sample (fgradX E) (img_size (ftemplate E)) w)
       (fwarpImage sample (fgradY E) (img_size (ftemplate E)) w)
       (fimg_sub (ftemplate E) (fwarpImage sample (ftarget E) (img_size (ftemplate E)) w))"

text \<open>The image of zeros of a size.\<close>

definition fzero_image :: "nat \<times> nat \<Rightarrow> fl list list" where
  "fzero_image sz = replicate (fst sz) (replicate (snd sz) (Fin 0))"

text \<open>The scratch buffers as one call leaves them.\<close>

definition frewritten ::
  "(fl list list \<Rightarrow> fwarp \<Rightarrow> nat \<times> nat \<Rightarrow> fl) \<Rightarrow> fengine \<Rightarrow> fwarp \<Rightarrow> fengine" where
  "frewritten sample E w =
     E\<lparr>fwarpedTarget := fwarpImage sample (ftarget E) (img_size (ftemplate E)) w,
       fwarpedGradX := fwarpImage sample (fgradX E) (img_size (ftemplate E)) w,
       fwarpedGradY := fwarpImage sample (fgradY E) (img_size (ftemplate E)) w,
       ferrorImage := fimg_sub (ftemplate E)
                        (fwarpImage sample (ftarget E) (img_size (ftemplate E)) w)\<rparr>"


section \<open>Auxiliary notions of the proofs\<close>

text \<open>One accumulation, of a steepest descent row and an error.\<close>

definition acc_step :: "vec \<times> real \<Rightarrow> vec \<times> mat \<Rightarrow> vec \<times> mat" where
  "acc_step d acc = (vadd (fst acc) (vscale (fst d) (snd d)), madd (snd acc) (outer (fst d) (fst d)))"

text \<open>A matrix of \<open>n\<close> rows of \<open>n\<close> entries.\<close>

definition square :: "nat \<Rightarrow> mat \<Rightarrow> bool" where
  "square n A = (length A = n \<and> list_all (\<lambda>r. length r = n) A)"


section \<open>Inputs of the examples\<close>

text \<open>A resampler: the pixel at the integer part of the point, zero outside the image.\<close>

definition ex_sample :: "image \<Rightarrow> point \<Rightarrow> real" where
  "ex_sample img p =
     (let x = \<lfloor>fst p\<rfloor>; y = \<lfloor>snd p\<rfloor>
      in if 0 \<le> y \<and> y < int (length img) \<and> 0 \<le> x \<and> x < int (length (img ! nat y))
         then img ! nat y ! nat x else 0)"

text \<open>An inverse: the inverse of a 2 by 2 matrix that has one, zeros of the same shape
  otherwise.\<close>

definition ex_inv :: "mat \<Rightarrow> mat" where
  "ex_inv M =
     (case M of
        [[a, b], [c, d]] \<Rightarrow>
          (if a * d - b * c = 0 then [[0, 0], [0, 0]]
           else [[d / (a * d - b * c), - b / (a * d - b * c)],
                 [- c / (a * d - b * c), a / (a * d - b * c)]])
      | _ \<Rightarrow> map (map (\<lambda>_. 0)) M)"

text \<open>The call \<open>w.jacobian()\<close> read as the Jacobian at the origin.\<close>

definition ex_jacobian0 :: "warp \<Rightarrow> mat" where
  "ex_jacobian0 w = jacobian w (0, 0)"

text \<open>The gradients of the sessions below are those a Sobel filter of size 3 with a
  mirrored border, times 0.125, gives for their targets.\<close>

text \<open>A session of a 2 by 2 template on a 3 by 3 target, and a translation at the
  identity.\<close>

definition ex_engine :: engine where
  "ex_engine =
     \<lparr>template = [[1, 2], [3, 5]], target = [[0, 1, 2], [1, 2, 3], [2, 3, 4]],
      warpedTarget = [[0, 0], [0, 0]], errorImage = [[0, 0], [0, 0]],
      gradX = [[0, 1, 0], [0, 1, 0], [0, 1, 0]], gradY = [[0, 0, 0], [1, 1, 1], [0, 0, 0]],
      warpedGradX = [[0, 0], [0, 0]], warpedGradY = [[0, 0], [0, 0]]\<rparr>"

definition ex_warp :: warp where
  "ex_warp = \<lparr>kind = WARP_TRANSLATION, params = [0, 0]\<rparr>"

text \<open>The same session with the template cut out of the target.\<close>

definition ex_aligned :: engine where
  "ex_aligned = ex_engine\<lparr>template := [[0, 1], [1, 2]]\<rparr>"

text \<open>A session whose gradient along \<open>y\<close> vanishes: its Hessian is singular.\<close>

definition ex_flat :: engine where
  "ex_flat =
     \<lparr>template = [[1, 2]], target = [[0, 1, 2]],
      warpedTarget = [[0, 0]], errorImage = [[0, 0]],
      gradX = [[0, 1, 0]], gradY = [[0, 0, 0]],
      warpedGradX = [[0, 0]], warpedGradY = [[0, 0]]\<rparr>"

text \<open>A session of a template of two rows and one column on a target that rises by one
  from column to column, whose gradient along \<open>x\<close> is 1 in the middle column, and 0 in
  the two columns at the border, and whose gradient along \<open>y\<close> is 0; and a Euclidean warp
  that shifts by one column and does not rotate.\<close>

definition ex_euclid_engine :: engine where
  "ex_euclid_engine =
     \<lparr>template = [[2], [2]], target = [[0, 1, 2], [0, 1, 2]],
      warpedTarget = [[0], [0]], errorImage = [[0], [0]],
      gradX = [[0, 1, 0], [0, 1, 0]], gradY = [[0, 0, 0], [0, 0, 0]],
      warpedGradX = [[0], [0]], warpedGradY = [[0], [0]]\<rparr>"

text \<open>A session of a 3 by 3 template on the 3 by 3 target of the first session; the
  template differs from the target at the pixel \<open>(1, 0)\<close>. And a Euclidean warp at the
  identity.\<close>

definition ex_euclid_square :: engine where
  "ex_euclid_square =
     \<lparr>template = [[0, 2, 2], [1, 2, 3], [2, 3, 4]],
      target = [[0, 1, 2], [1, 2, 3], [2, 3, 4]],
      warpedTarget = [[0, 0, 0], [0, 0, 0], [0, 0, 0]],
      errorImage = [[0, 0, 0], [0, 0, 0], [0, 0, 0]],
      gradX = [[0, 1, 0], [0, 1, 0], [0, 1, 0]], gradY = [[0, 0, 0], [1, 1, 1], [0, 0, 0]],
      warpedGradX = [[0, 0, 0], [0, 0, 0], [0, 0, 0]],
      warpedGradY = [[0, 0, 0], [0, 0, 0], [0, 0, 0]]\<rparr>"

definition ex_euclid_identity :: warp where
  "ex_euclid_identity = \<lparr>kind = WARP_EUCLIDEAN, params = [0, 0, 0]\<rparr>"

definition ex_euclid_warp :: warp where
  "ex_euclid_warp = \<lparr>kind = WARP_EUCLIDEAN, params = [1, 0, 0]\<rparr>"


text \<open>The inverse of a 2 by 2 matrix as OpenCV computes it in closed form: zeros where the
  determinant compares equal to zero, the adjugate times the reciprocal of the determinant
  otherwise; zeros of the same shape for another shape.\<close>

definition cv_inv22 :: "fl list list \<Rightarrow> fl list list" where
  "cv_inv22 M =
     (case M of
        [[a, b], [c, d]] \<Rightarrow>
          (let dt = fsub (fmul a d) (fmul b c) in
             if dt = Fin 0 then [[Fin 0, Fin 0], [Fin 0, Fin 0]]
             else let r = fdiv (Fin 1) dt in
               [[fmul d r, fmul (fneg b) r], [fmul (fneg c) r, fmul a r]])
      | _ \<Rightarrow> map (map (\<lambda>_. Fin 0)) M)"

text \<open>A resampler for a translation by whole numbers: the pixel of the source at the
  shifted place, zero outside the source.\<close>

definition ex_fsample :: "fl list list \<Rightarrow> fwarp \<Rightarrow> nat \<times> nat \<Rightarrow> fl" where
  "ex_fsample img w p =
     (case fparams w of
        [Fin tx, Fin ty] \<Rightarrow>
          (let x = int (fst p) + \<lfloor>tx\<rfloor>; y = int (snd p) + \<lfloor>ty\<rfloor>
           in if 0 \<le> y \<and> y < int (length img) \<and> 0 \<le> x \<and> x < int (length (img ! nat y))
              then img ! nat y ! nat x else Fin 0)
      | _ \<Rightarrow> NaN)"

text \<open>The Jacobian of the translation.\<close>

definition ex_fjacobian :: "fwarp \<Rightarrow> fl list list" where
  "ex_fjacobian w = [[Fin 1, Fin 0], [Fin 0, Fin 1]]"

definition ex_fwarp :: fwarp where
  "ex_fwarp = \<lparr>fkind = WARP_TRANSLATION, fparams = [Fin 0, Fin 0]\<rparr>"

text \<open>A session whose template is cut out of its target, with a gradient whose square
  exceeds the range of \<open>float\<close>.\<close>

definition ex_big :: real where
  "ex_big = 2 ^ 64"

definition ex_overflow :: fengine where
  "ex_overflow =
     \<lparr>ftemplate = [[Fin 0, Fin ex_big]], ftarget = [[Fin 0, Fin ex_big, Fin (2 * ex_big)]],
      fwarpedTarget = [[Fin 0, Fin 0]], ferrorImage = [[Fin 0, Fin 0]],
      fgradX = [[Fin 0, Fin ex_big, Fin 0]], fgradY = [[Fin 0, Fin 0, Fin 0]],
      fwarpedGradX = [[Fin 0, Fin 0]], fwarpedGradY = [[Fin 0, Fin 0]]\<rparr>"

text \<open>The session \<open>ex_aligned\<close> on these numbers.\<close>

definition ex_faligned :: fengine where
  "ex_faligned =
     \<lparr>ftemplate = [[Fin 0, Fin 1], [Fin 1, Fin 2]],
      ftarget = [[Fin 0, Fin 1, Fin 2], [Fin 1, Fin 2, Fin 3], [Fin 2, Fin 3, Fin 4]],
      fwarpedTarget = [[Fin 0, Fin 0], [Fin 0, Fin 0]],
      ferrorImage = [[Fin 0, Fin 0], [Fin 0, Fin 0]],
      fgradX = [[Fin 0, Fin 1, Fin 0], [Fin 0, Fin 1, Fin 0], [Fin 0, Fin 1, Fin 0]],
      fgradY = [[Fin 0, Fin 0, Fin 0], [Fin 1, Fin 1, Fin 1], [Fin 0, Fin 0, Fin 0]],
      fwarpedGradX = [[Fin 0, Fin 0], [Fin 0, Fin 0]],
      fwarpedGradY = [[Fin 0, Fin 0], [Fin 0, Fin 0]]\<rparr>"


text \<open>The first session on these numbers.\<close>

definition ex_fengine :: fengine where
  "ex_fengine = ex_faligned\<lparr>ftemplate := [[Fin 1, Fin 2], [Fin 3, Fin 5]]\<rparr>"


section \<open>The warp: its Jacobian is the derivative of the map\<close>

lemma vadd2 [simp]: "vadd [a, b] [c, d] = [a + c, b + d]"
  by (simp add: vadd_def)

lemma dot2 [simp]: "dot [a, b] [c, d] = a * c + b * d"
  by (simp add: dot_def)

lemma warp_apply_translation:
  "warp_apply \<lparr>kind = WARP_TRANSLATION, params = [tx, ty]\<rparr> (x, y) = (x + tx, y + ty)"
  by (simp add: warp_apply_def)

lemma warp_apply_euclidean:
  "warp_apply \<lparr>kind = WARP_EUCLIDEAN, params = [tx, ty, \<theta>]\<rparr> (x, y) =
     (cos \<theta> * x - sin \<theta> * y + tx, sin \<theta> * x + cos \<theta> * y + ty)"
  by (simp add: warp_apply_def rotation_def mat_vec_def)

text \<open>The Jacobian of the model is the derivative of \<open>apply\<close> by each parameter.\<close>

lemma jacobian_euclidean_is_derivative:
  fixes x y tx ty \<theta> :: real
  defines "J \<equiv> jacobian \<lparr>kind = WARP_EUCLIDEAN, params = [tx, ty, \<theta>]\<rparr> (x, y)"
  shows "((\<lambda>t. fst (warp_apply \<lparr>kind = WARP_EUCLIDEAN, params = [t, ty, \<theta>]\<rparr> (x, y)))
            has_real_derivative J ! 0 ! 0) (at tx)"
    and "((\<lambda>t. snd (warp_apply \<lparr>kind = WARP_EUCLIDEAN, params = [t, ty, \<theta>]\<rparr> (x, y)))
            has_real_derivative J ! 1 ! 0) (at tx)"
    and "((\<lambda>t. fst (warp_apply \<lparr>kind = WARP_EUCLIDEAN, params = [tx, t, \<theta>]\<rparr> (x, y)))
            has_real_derivative J ! 0 ! 1) (at ty)"
    and "((\<lambda>t. snd (warp_apply \<lparr>kind = WARP_EUCLIDEAN, params = [tx, t, \<theta>]\<rparr> (x, y)))
            has_real_derivative J ! 1 ! 1) (at ty)"
    and "((\<lambda>t. fst (warp_apply \<lparr>kind = WARP_EUCLIDEAN, params = [tx, ty, t]\<rparr> (x, y)))
            has_real_derivative J ! 0 ! 2) (at \<theta>)"
    and "((\<lambda>t. snd (warp_apply \<lparr>kind = WARP_EUCLIDEAN, params = [tx, ty, t]\<rparr> (x, y)))
            has_real_derivative J ! 1 ! 2) (at \<theta>)"
  unfolding J_def warp_apply_euclidean jacobian_def
  by (auto intro!: derivative_eq_intros simp: algebra_simps)

lemma jacobian_translation_is_derivative:
  fixes x y tx ty :: real
  defines "J \<equiv> jacobian \<lparr>kind = WARP_TRANSLATION, params = [tx, ty]\<rparr> (x, y)"
  shows "((\<lambda>t. fst (warp_apply \<lparr>kind = WARP_TRANSLATION, params = [t, ty]\<rparr> (x, y)))
            has_real_derivative J ! 0 ! 0) (at tx)"
    and "((\<lambda>t. snd (warp_apply \<lparr>kind = WARP_TRANSLATION, params = [t, ty]\<rparr> (x, y)))
            has_real_derivative J ! 1 ! 0) (at tx)"
    and "((\<lambda>t. fst (warp_apply \<lparr>kind = WARP_TRANSLATION, params = [tx, t]\<rparr> (x, y)))
            has_real_derivative J ! 0 ! 1) (at ty)"
    and "((\<lambda>t. snd (warp_apply \<lparr>kind = WARP_TRANSLATION, params = [tx, t]\<rparr> (x, y)))
            has_real_derivative J ! 1 ! 1) (at ty)"
  unfolding J_def warp_apply_translation jacobian_def
  by (auto intro!: derivative_eq_intros)


section \<open>The accumulation loop\<close>

lemma length_vadd [simp]: "length (vadd u v) = min (length u) (length v)"
  by (simp add: vadd_def)

lemma length_madd [simp]: "length (madd A B) = min (length A) (length B)"
  by (simp add: madd_def)

lemma length_vscale [simp]: "length (vscale u c) = length u"
  by (simp add: vscale_def)

lemma length_vec_mat [simp]: "length (vec_mat v M n) = n"
  by (simp add: vec_mat_def)

lemma length_mat_vec [simp]: "length (mat_vec M v) = length M"
  by (simp add: mat_vec_def)

lemma length_outer [simp]: "length (outer u v) = length u"
  by (simp add: outer_def)

lemma length_vzeros [simp]: "length (vzeros n) = n"
  by (simp add: vzeros_def)

lemma length_mzeros [simp]: "length (mzeros n) = n"
  by (simp add: mzeros_def)

lemma pixel_step_acc_step:
  "pixel_step J n gxRow gyRow eRow =
     (\<lambda>x. acc_step (vec_mat [gxRow ! x, gyRow ! x] J n, eRow ! x))"
  by (intro ext) (simp add: pixel_step_def acc_step_def Let_def)

lemma fold_concat_fold: "fold f (concat xss) a = fold (fold f) xss a"
  by (induction xss arbitrary: a) simp_all

lemma accumulate_as_fold:
  "accumulate J n sz wgx wgy err =
     fold acc_step
       (map (\<lambda>p. (vec_mat [wgx ! snd p ! fst p, wgy ! snd p ! fst p] J n, err ! snd p ! fst p))
          (pixels sz))
       (vzeros n, mzeros n)"
proof -
  have row: "row_step J n (snd sz) wgx wgy err =
      (\<lambda>y. fold acc_step (map (\<lambda>p. (vec_mat [wgx ! snd p ! fst p, wgy ! snd p ! fst p] J n,
                                err ! snd p ! fst p))
                       (map (\<lambda>x. (x, y)) [0..<snd sz])))"
    by (intro ext) (simp add: row_step_def pixel_step_acc_step fold_map comp_def)
  show ?thesis
    unfolding accumulate_def pixels_def map_concat fold_concat_fold row
    by (simp add: fold_map comp_def)
qed

lemma vadd_nth_form:
  "length u = n \<Longrightarrow> length v = n \<Longrightarrow> vadd u v = map (\<lambda>i. u ! i + v ! i) [0..<n]"
  by (auto simp: vadd_def intro!: nth_equalityI)

lemma madd_outer_nth_form:
  assumes "square n A" "length s = n"
  shows "madd A (outer s s) = map (\<lambda>i. map (\<lambda>j. A ! i ! j + s ! i * s ! j) [0..<n]) [0..<n]"
proof (rule nth_equalityI)
  show "length (madd A (outer s s)) = length (map (\<lambda>i. map (\<lambda>j. A ! i ! j + s ! i * s ! j) [0..<n]) [0..<n])"
    using assms by (simp add: square_def)
next
  fix i assume "i < length (madd A (outer s s))"
  then have i: "i < n" using assms by (simp add: square_def)
  have rowlen: "length (A ! i) = n"
    using assms i by (simp add: square_def list_all_length)
  have "madd A (outer s s) ! i = vadd (A ! i) (map (\<lambda>b. s ! i * b) s)"
    using assms i by (simp add: madd_def outer_def square_def)
  also have "\<dots> = map (\<lambda>j. A ! i ! j + s ! i * s ! j) [0..<n]"
    using rowlen assms(2) by (simp add: vadd_nth_form[of _ n])
  finally show "madd A (outer s s) ! i = map (\<lambda>i. map (\<lambda>j. A ! i ! j + s ! i * s ! j) [0..<n]) [0..<n] ! i"
    using i by simp
qed

lemma square_nth_form:
  assumes "square n A"
  shows "map (\<lambda>i. map (\<lambda>j. A ! i ! j) [0..<n]) [0..<n] = A"
proof (rule nth_equalityI)
  show "length (map (\<lambda>i. map (\<lambda>j. A ! i ! j) [0..<n]) [0..<n]) = length A"
    using assms by (simp add: square_def)
next
  fix i assume "i < length (map (\<lambda>i. map (\<lambda>j. A ! i ! j) [0..<n]) [0..<n])"
  then have i: "i < n" by simp
  then have "length (A ! i) = n"
    using assms by (simp add: square_def list_all_length)
  then have "map (\<lambda>j. A ! i ! j) [0..<n] = A ! i"
    by (auto intro!: nth_equalityI)
  then show "map (\<lambda>i. map (\<lambda>j. A ! i ! j) [0..<n]) [0..<n] ! i = A ! i"
    using i by simp
qed

lemma fold_acc_step:
  assumes "list_all (\<lambda>d. length (fst d) = n) ds" "length s = n" "square n A"
  shows "fold acc_step ds (s, A) =
    (map (\<lambda>i. s ! i + sum_list (map (\<lambda>d. fst d ! i * snd d) ds)) [0..<n],
     map (\<lambda>i. map (\<lambda>j. A ! i ! j + sum_list (map (\<lambda>d. fst d ! i * fst d ! j) ds)) [0..<n]) [0..<n])"
  using assms
proof (induction ds arbitrary: s A)
  case Nil
  have "map (\<lambda>i. s ! i) [0..<n] = s"
    using Nil(2) by (auto intro!: nth_equalityI)
  then show ?case using Nil(3) by (simp add: square_nth_form)
next
  case (Cons d ds)
  let ?s = "map (\<lambda>i. s ! i + fst d ! i * snd d) [0..<n]"
  let ?A = "map (\<lambda>i. map (\<lambda>j. A ! i ! j + fst d ! i * fst d ! j) [0..<n]) [0..<n]"
  have d: "length (fst d) = n" and ds: "list_all (\<lambda>d. length (fst d) = n) ds"
    using Cons.prems(1) by simp_all
  have step: "acc_step d (s, A) = (?s, ?A)"
    using d Cons.prems(2,3)
    by (simp add: acc_step_def madd_outer_nth_form vadd_nth_form[of _ n] vscale_def)
  have sq: "square n ?A" by (simp add: square_def list_all_length)
  have "fold acc_step (d # ds) (s, A) = fold acc_step ds (?s, ?A)"
    by (simp add: step)
  also have "\<dots> = (map (\<lambda>i. ?s ! i + sum_list (map (\<lambda>d. fst d ! i * snd d) ds)) [0..<n],
     map (\<lambda>i. map (\<lambda>j. ?A ! i ! j + sum_list (map (\<lambda>d. fst d ! i * fst d ! j) ds)) [0..<n]) [0..<n])"
    by (rule Cons.IH[OF ds _ sq]) simp
  also have "\<dots> = (map (\<lambda>i. s ! i + sum_list (map (\<lambda>d. fst d ! i * snd d) (d # ds))) [0..<n],
     map (\<lambda>i. map (\<lambda>j. A ! i ! j + sum_list (map (\<lambda>d. fst d ! i * fst d ! j) (d # ds))) [0..<n]) [0..<n])"
    by (simp add: algebra_simps cong: map_cong)
  finally show ?case .
qed


section \<open>One step of the engine\<close>

lemma in_pixels: "p \<in> set (pixels sz) \<longleftrightarrow> fst p < snd sz \<and> snd p < fst sz"
  by (cases p) (auto simp: pixels_def image_iff)

lemma length_pixels [simp]: "length (pixels sz) = fst sz * snd sz"
  by (simp add: pixels_def length_concat comp_def sum_list_triv)

lemma length_warpImage [simp]: "length (warpImage sample src sz w) = fst sz"
  by (simp add: warpImage_def)

lemma warpImage_nth:
  "y < fst sz \<Longrightarrow> x < snd sz \<Longrightarrow>
     warpImage sample src sz w ! y ! x = resampled sample src w (x, y)"
  by (simp add: warpImage_def resampled_def)

lemma warpImage_row_length:
  "y < fst sz \<Longrightarrow> length (warpImage sample src sz w ! y) = snd sz"
  by (simp add: warpImage_def)

lemma img_size_warpImage [simp]:
  "img_size (warpImage sample src (img_size A) w) = img_size A"
  by (cases A) (simp_all add: img_size_def warpImage_def upt_conv_Cons del: upt_Suc)

lemma rect_row_length:
  "rect T \<Longrightarrow> y < length T \<Longrightarrow> length (T ! y) = snd (img_size T)"
  by (simp add: rect_def list_all_length)

lemma img_sub_rows:
  assumes "rect T"
  shows "img_sub T (warpImage sample src (img_size T) w) =
     map (\<lambda>y. map (\<lambda>x. T ! y ! x - resampled sample src w (x, y)) [0..<snd (img_size T)])
       [0..<fst (img_size T)]"
proof (rule nth_equalityI)
  show "length (img_sub T (warpImage sample src (img_size T) w)) =
      length (map (\<lambda>y. map (\<lambda>x. T ! y ! x - resampled sample src w (x, y))
                  [0..<snd (img_size T)]) [0..<fst (img_size T)])"
    by (simp add: img_sub_def img_size_def)
next
  fix y assume "y < length (img_sub T (warpImage sample src (img_size T) w))"
  then have y: "y < length T" "y < fst (img_size T)"
    by (simp_all add: img_sub_def img_size_def)
  have len: "length (T ! y) = snd (img_size T)"
    using assms y(1) by (rule rect_row_length)
  have "img_sub T (warpImage sample src (img_size T) w) ! y =
      map2 (-) (T ! y) (warpImage sample src (img_size T) w ! y)"
    using y by (simp add: img_sub_def)
  also have "\<dots> = map (\<lambda>x. T ! y ! x - resampled sample src w (x, y)) [0..<snd (img_size T)]"
    using len y(2)
    by (auto intro!: nth_equalityI simp: warpImage_row_length warpImage_nth)
  finally show "img_sub T (warpImage sample src (img_size T) w) ! y =
      map (\<lambda>y. map (\<lambda>x. T ! y ! x - resampled sample src w (x, y)) [0..<snd (img_size T)])
        [0..<fst (img_size T)] ! y"
    using y(2) by simp
qed

lemma error_image_rows:
  "rect (template E) \<Longrightarrow>
   img_sub (template E) (warpImage sample (target E) (img_size (template E)) w) =
     map (\<lambda>y. map (\<lambda>x. error_at sample E w (x, y)) [0..<snd (img_size (template E))])
       [0..<fst (img_size (template E))]"
  by (simp add: img_sub_rows error_at_def)

lemma error_image_pixels:
  "rect (template E) \<Longrightarrow>
   concat (img_sub (template E) (warpImage sample (target E) (img_size (template E)) w)) =
     map (error_at sample E w) (pixels (img_size (template E)))"
  by (simp add: error_image_rows pixels_def map_concat comp_def)

lemma accumulate_sums:
  assumes "rect (template E)"
  defines "sz \<equiv> img_size (template E)"
  shows "accumulate J (NParameters (kind w)) sz
           (warpImage sample (gradX E) sz w) (warpImage sample (gradY E) sz w)
           (img_sub (template E) (warpImage sample (target E) sz w)) =
         (rhs_sum (NParameters (kind w)) (sd_at sample J E w) (error_at sample E w) (pixels sz),
          hessian_sum (NParameters (kind w)) (sd_at sample J E w) (pixels sz))"
proof -
  let ?n = "NParameters (kind w)"
  let ?wgx = "warpImage sample (gradX E) sz w"
  let ?wgy = "warpImage sample (gradY E) sz w"
  let ?err = "img_sub (template E) (warpImage sample (target E) sz w)"
  have data: "map (\<lambda>p. (vec_mat [?wgx ! snd p ! fst p, ?wgy ! snd p ! fst p] J ?n,
                        ?err ! snd p ! fst p)) (pixels sz) =
      map (\<lambda>p. (sd_at sample J E w p, error_at sample E w p)) (pixels sz)"
  proof (rule map_cong[OF refl])
    fix p assume "p \<in> set (pixels sz)"
    then have p: "fst p < snd sz" "snd p < fst sz" by (simp_all add: in_pixels)
    have "?err ! snd p ! fst p = error_at sample E w p"
      using assms(1) p unfolding sz_def by (simp add: error_image_rows)
    then show "(vec_mat [?wgx ! snd p ! fst p, ?wgy ! snd p ! fst p] J ?n, ?err ! snd p ! fst p) =
        (sd_at sample J E w p, error_at sample E w p)"
      using p by (simp add: sd_at_def warpImage_nth)
  qed
  have sq: "square ?n (mzeros ?n)"
    by (simp add: square_def mzeros_def list_all_length)
  have all: "list_all (\<lambda>d. length (fst d) = ?n)
      (map (\<lambda>p. (sd_at sample J E w p, error_at sample E w p)) (pixels sz))"
    by (simp add: list_all_length sd_at_def)
  have "fold acc_step (map (\<lambda>p. (sd_at sample J E w p, error_at sample E w p)) (pixels sz))
      (vzeros ?n, mzeros ?n) =
    (map (\<lambda>i. vzeros ?n ! i + sum_list (map (\<lambda>d. fst d ! i * snd d)
        (map (\<lambda>p. (sd_at sample J E w p, error_at sample E w p)) (pixels sz)))) [0..<?n],
     map (\<lambda>i. map (\<lambda>j. mzeros ?n ! i ! j + sum_list (map (\<lambda>d. fst d ! i * fst d ! j)
        (map (\<lambda>p. (sd_at sample J E w p, error_at sample E w p)) (pixels sz)))) [0..<?n]) [0..<?n])"
    by (rule fold_acc_step[OF all _ sq]) simp
  also have "\<dots> = (rhs_sum ?n (sd_at sample J E w) (error_at sample E w) (pixels sz),
          hessian_sum ?n (sd_at sample J E w) (pixels sz))"
    by (simp add: rhs_sum_def hessian_sum_def vzeros_def mzeros_def comp_def cong: map_cong)
  finally show ?thesis
    unfolding accumulate_as_fold data .
qed

lemma align_step:
  assumes "prepared E" "wf_warp w" "\<forall>M. length (matx_inv M) = length M"
  shows "align sample jacobian_of matx_inv E w =
     Inr (rewritten sample E w,
          w\<lparr>params := vadd (getParameters w) (align_delta sample jacobian_of matx_inv E w)\<rparr>,
          mean (errorImage (rewritten sample E w)))"
proof -
  let ?n = "NParameters (kind w)"
  have sz: "img_size (warpedTarget E) = img_size (template E)"
    "img_size (warpedGradX E) = img_size (template E)"
    "img_size (warpedGradY E) = img_size (template E)"
    and ok: "sizes_ok E" and r: "rect (template E)"
    using assms(1) by (simp_all add: prepared_def sizes_ok_def)
  have len: "length (vadd (getParameters w)
      (align_delta sample jacobian_of matx_inv E w)) = ?n"
    using assms(2,3)
    by (simp add: align_delta_def Let_def getParameters_def wf_warp_def hessian_sum_def)
  show ?thesis
    using len
    by (simp add: align_def ok sz Let_def accumulate_sums[OF r] setParameters_def
        align_delta_def rewritten_def)
qed

lemma sum_list_vanishes:
  "(\<And>x. x \<in> set xs \<Longrightarrow> f x = (0::real)) \<Longrightarrow> sum_list (map f xs) = 0"
  by (induction xs) simp_all

lemma dot_zeros [simp]: "dot r (replicate n 0) = 0"
proof (induction r arbitrary: n)
  case Nil
  then show ?case by (simp add: dot_def)
next
  case (Cons a r)
  then show ?case by (cases n) (simp_all add: dot_def)
qed

lemma mat_vec_zeros: "mat_vec M (replicate n 0) = replicate (length M) 0"
  by (simp add: mat_vec_def map_replicate_const)

lemma vadd_zeros: "length u = n \<Longrightarrow> vadd u (replicate n 0) = u"
  by (auto simp: vadd_def intro!: nth_equalityI)

lemma errors_vanish:
  assumes "warpImage sample (target E) (img_size (template E)) w = template E"
    and "p \<in> set (pixels (img_size (template E)))"
  shows "error_at sample E w p = 0"
proof -
  have p: "snd p < fst (img_size (template E))" "fst p < snd (img_size (template E))"
    using assms(2) by (simp_all add: in_pixels)
  have "template E ! snd p ! fst p =
      warpImage sample (target E) (img_size (template E)) w ! snd p ! fst p"
    by (simp add: assms(1))
  also have "\<dots> = resampled sample (target E) w (fst p, snd p)"
    using p by (rule warpImage_nth)
  finally show ?thesis by (simp add: error_at_def)
qed

lemma rhs_sum_vanishes:
  assumes "\<And>p. p \<in> set ps \<Longrightarrow> e p = 0"
  shows "rhs_sum n sd e ps = replicate n 0"
proof -
  have "sum_list (map (\<lambda>p. sd p ! i * e p) ps) = 0" for i
    by (rule sum_list_vanishes) (simp add: assms)
  then show ?thesis
    by (simp add: rhs_sum_def map_replicate_const)
qed

lemma mean_of_errors:
  "rect (template E) \<Longrightarrow> mean (errorImage (rewritten sample E w)) = mean_error sample E w"
  by (simp add: rewritten_def mean_def mean_error_def Let_def error_image_pixels)

lemma rewritten_frame:
  "template (rewritten sample E w) = template E"
  "target (rewritten sample E w) = target E"
  "gradX (rewritten sample E w) = gradX E"
  "gradY (rewritten sample E w) = gradY E"
  by (simp_all add: rewritten_def)

lemma rewritten_prepared: "prepared E \<Longrightarrow> prepared (rewritten sample E w)"
  by (simp add: prepared_def sizes_ok_def rewritten_def)

lemma rewritten_sizes:
  "img_size (warpedTarget (rewritten sample E w)) = img_size (template E)"
  "img_size (warpedGradX (rewritten sample E w)) = img_size (template E)"
  "img_size (warpedGradY (rewritten sample E w)) = img_size (template E)"
  by (simp_all add: rewritten_def)

lemma rewritten_overwritten:
  "(rewritten sample E w)\<lparr>warpedTarget := a, warpedGradX := b, warpedGradY := c,
      errorImage := d\<rparr> =
   E\<lparr>warpedTarget := a, warpedGradX := b, warpedGradY := c, errorImage := d\<rparr>"
  by (simp add: rewritten_def)

lemma align_rewritten:
  assumes "prepared E"
  shows "align sample jacobian_of matx_inv (rewritten sample E w) w2 =
     align sample jacobian_of matx_inv E w2"
proof -
  have ok: "sizes_ok E" "sizes_ok (rewritten sample E w)"
    using assms rewritten_prepared[OF assms, of sample w] by (simp_all add: prepared_def)
  have sz: "img_size (warpedTarget E) = img_size (template E)"
    "img_size (warpedGradX E) = img_size (template E)"
    "img_size (warpedGradY E) = img_size (template E)"
    using ok(1) by (simp_all add: sizes_ok_def)
  show ?thesis
    by (simp add: align_def Let_def ok sz rewritten_sizes rewritten_frame
        rewritten_overwritten split: sum.splits)
qed

lemma img_size_create: "img_size (create (img_size A) old) = img_size A"
  by (cases A) (simp_all add: create_def img_size_def)

lemma prepare_prepared: "rect tmpl \<Longrightarrow> prepared (prepare sobel E tmpl tgt)"
  by (simp add: prepared_def prepare_def sizes_ok_def img_size_create)

lemma delta_length:
  assumes "\<forall>M. length (matx_inv M) = length M"
  shows "length (align_delta sample jacobian_of matx_inv E w) = NParameters (kind w)"
  using assms by (simp add: align_delta_def Let_def hessian_sum_def)


text \<open>Over the real numbers a zero error image is a fixed point of the step.\<close>

lemma zero_error_fixed_point_exact:
  assumes "prepared E" and "wf_warp w" and "\<forall>M. length (matx_inv M) = length M"
    and "warpImage sample (target E) (img_size (template E)) w = template E"
  shows "align_delta sample jacobian_of matx_inv E w = replicate (NParameters (kind w)) 0
     \<and> align sample jacobian_of matx_inv E w = Inr (rewritten sample E w, w, 0)"
proof -
  let ?n = "NParameters (kind w)"
  let ?ps = "pixels (img_size (template E))"
  have r: "rect (template E)" using assms(1) by (simp add: prepared_def)
  have zero: "error_at sample E w p = 0" if "p \<in> set ?ps" for p
    using assms(4) that by (rule errors_vanish)
  have rhs: "rhs_sum ?n (sd_at sample (jacobian_of w) E w) (error_at sample E w) ?ps =
      replicate ?n 0"
    using zero by (rule rhs_sum_vanishes)
  have d: "align_delta sample jacobian_of matx_inv E w = replicate ?n 0"
    using assms(3)
    by (simp add: align_delta_def Let_def rhs mat_vec_zeros hessian_sum_def)
  then have upd: "vadd (getParameters w) (align_delta sample jacobian_of matx_inv E w) =
      params w"
    using assms(2) by (simp add: getParameters_def wf_warp_def vadd_zeros)
  have "sum_list (map (error_at sample E w) ?ps) = 0"
    using zero by (rule sum_list_vanishes)
  then have m: "mean (errorImage (rewritten sample E w)) = 0"
    by (simp add: mean_of_errors[OF r] mean_error_def Let_def)
  have "align sample jacobian_of matx_inv E w = Inr (rewritten sample E w, w, 0)"
    by (simp add: align_step[OF assms(1,2,3)] upd m)
  with d show ?thesis
    by (rule conjI)
qed


section \<open>The Hessian of one Jacobian\<close>

text \<open>The row of the loop is a combination of the first two rows of the one matrix,
  whatever that matrix is; so the Hessian of three parameters that the loop accumulates
  has rank two at most.\<close>

lemma det3:
  "det [[a, b, c], [d, e, f], [g, h, i]] =
     a * (e * i - f * h) - b * (d * i - f * g) + c * (d * h - e * g)"
  by (simp add: upt_conv_Cons algebra_simps del: upt_Suc)

lemma sd_entry_sums:
  fixes ui uj vi vj :: real
  shows "sum_list (map (\<lambda>p. (\<alpha> p * ui + \<beta> p * vi) * (\<alpha> p * uj + \<beta> p * vj)) ps) =
     sum_list (map (\<lambda>p. \<alpha> p * \<alpha> p) ps) * (ui * uj)
     + sum_list (map (\<lambda>p. \<alpha> p * \<beta> p) ps) * (ui * vj + vi * uj)
     + sum_list (map (\<lambda>p. \<beta> p * \<beta> p) ps) * (vi * vj)"
  by (induction ps) (simp_all add: algebra_simps)

lemma rank2_det:
  fixes A B C :: real
  shows "det [[A * (u0 * u0) + B * (u0 * v0 + v0 * u0) + C * (v0 * v0),
               A * (u0 * u1) + B * (u0 * v1 + v0 * u1) + C * (v0 * v1),
               A * (u0 * u2) + B * (u0 * v2 + v0 * u2) + C * (v0 * v2)],
              [A * (u1 * u0) + B * (u1 * v0 + v1 * u0) + C * (v1 * v0),
               A * (u1 * u1) + B * (u1 * v1 + v1 * u1) + C * (v1 * v1),
               A * (u1 * u2) + B * (u1 * v2 + v1 * u2) + C * (v1 * v2)],
              [A * (u2 * u0) + B * (u2 * v0 + v2 * u0) + C * (v2 * v0),
               A * (u2 * u1) + B * (u2 * v1 + v2 * u1) + C * (v2 * v1),
               A * (u2 * u2) + B * (u2 * v2 + v2 * u2) + C * (v2 * v2)]] = 0"
  unfolding det3 by algebra

lemma vec_mat_two_rows:
  "\<exists>u0 u1 u2 v0 v1 v2. \<forall>a b. vec_mat [a, b] J 3 =
      [a * u0 + b * v0, a * u1 + b * v1, a * u2 + b * v2]"
proof (cases J)
  case Nil
  then have "\<forall>a b. vec_mat [a, b] J 3 = [a * 0 + b * 0, a * 0 + b * 0, a * 0 + b * 0]"
    by (simp add: vec_mat_def mat_col_def dot_def upt_conv_Cons del: upt_Suc)
  then show ?thesis by blast
next
  case outer: (Cons r0 J')
  show ?thesis
  proof (cases J')
    case Nil
    then have "\<forall>a b. vec_mat [a, b] J 3 =
        [a * (r0 ! 0) + b * 0, a * (r0 ! 1) + b * 0, a * (r0 ! 2) + b * 0]"
      using outer
      by (simp add: vec_mat_def mat_col_def dot_def upt_conv_Cons numeral_2_eq_2 del: upt_Suc)
    then show ?thesis by blast
  next
    case (Cons r1 J'')
    then have "\<forall>a b. vec_mat [a, b] J 3 =
        [a * (r0 ! 0) + b * (r1 ! 0), a * (r0 ! 1) + b * (r1 ! 1), a * (r0 ! 2) + b * (r1 ! 2)]"
      using outer
      by (simp add: vec_mat_def mat_col_def dot_def upt_conv_Cons numeral_2_eq_2 del: upt_Suc)
    then show ?thesis by blast
  qed
qed

lemma one_jacobian_hessian_singular:
  "det (hessian_sum 3 (sd_at sample J E \<lparr>kind = WARP_EUCLIDEAN, params = q\<rparr>) ps) = 0"
proof -
  obtain u0 u1 u2 v0 v1 v2 where uv: "\<And>a b. vec_mat [a, b] J 3 =
      [a * u0 + b * v0, a * u1 + b * v1, a * u2 + b * v2]"
    using vec_mat_two_rows[of J] by blast
  let ?w = "\<lparr>kind = WARP_EUCLIDEAN, params = q\<rparr>"
  let ?a = "\<lambda>p. resampled sample (gradX E) ?w p"
  let ?b = "\<lambda>p. resampled sample (gradY E) ?w p"
  let ?A = "sum_list (map (\<lambda>p. ?a p * ?a p) ps)"
  let ?B = "sum_list (map (\<lambda>p. ?a p * ?b p) ps)"
  let ?C = "sum_list (map (\<lambda>p. ?b p * ?b p) ps)"
  have sd: "sd_at sample J E ?w p =
      [?a p * u0 + ?b p * v0, ?a p * u1 + ?b p * v1, ?a p * u2 + ?b p * v2]" for p
    by (simp add: sd_at_def uv)
  have H: "hessian_sum 3 (sd_at sample J E ?w) ps =
      [[?A * (u0 * u0) + ?B * (u0 * v0 + v0 * u0) + ?C * (v0 * v0),
        ?A * (u0 * u1) + ?B * (u0 * v1 + v0 * u1) + ?C * (v0 * v1),
        ?A * (u0 * u2) + ?B * (u0 * v2 + v0 * u2) + ?C * (v0 * v2)],
       [?A * (u1 * u0) + ?B * (u1 * v0 + v1 * u0) + ?C * (v1 * v0),
        ?A * (u1 * u1) + ?B * (u1 * v1 + v1 * u1) + ?C * (v1 * v1),
        ?A * (u1 * u2) + ?B * (u1 * v2 + v1 * u2) + ?C * (v1 * v2)],
       [?A * (u2 * u0) + ?B * (u2 * v0 + v2 * u0) + ?C * (v2 * v0),
        ?A * (u2 * u1) + ?B * (u2 * v1 + v2 * u1) + ?C * (v2 * v1),
        ?A * (u2 * u2) + ?B * (u2 * v2 + v2 * u2) + ?C * (v2 * v2)]]"
    unfolding hessian_sum_def sd
    by (simp add: upt_conv_Cons sd_entry_sums del: upt_Suc)
  show ?thesis
    unfolding H by (rule rank2_det)
qed


text \<open>For the translation warp the Jacobian is the same at every point, and the update of
  \<open>align\<close> is the step of the specification.\<close>

lemma translation_step_is_gauss_newton:
  assumes "kind w = WARP_TRANSLATION"
  shows "align_delta sample (\<lambda>w. jacobian w p0) matx_inv E w =
     gauss_newton_delta sample matx_inv E w"
proof -
  have "sd_pointwise sample E w = sd_at sample (jacobian w p0) E w"
    using assms by (intro ext) (simp add: sd_pointwise_def jacobian_def)
  then show ?thesis
    by (simp add: align_delta_def gauss_newton_delta_def)
qed


section \<open>The engine on floating point numbers: one step\<close>

lemma ovf_zero [simp]: "ovf 0 = Fin 0"
  by (simp add: ovf_def overflow_bound_def)

lemma fadd_zero: "representable p \<Longrightarrow> fadd p (Fin 0) = p"
  by (cases p) (auto simp: ovf_def)

lemma fmul_fin_zero: "is_fin a \<Longrightarrow> fmul a (Fin 0) = Fin 0"
  by (cases a) simp_all

lemma fadd_zero_zero [simp]: "fadd (Fin 0) (Fin 0) = Fin 0"
  by simp

lemma length_fvec_mat [simp]: "length (fvec_mat v M n) = n"
  by (simp add: fvec_mat_def)

lemma length_fouter [simp]: "length (fouter u v) = length u"
  by (simp add: fouter_def)

lemma length_fmadd [simp]: "length (fmadd A B) = min (length A) (length B)"
  by (simp add: fmadd_def)

lemma length_fmat_vec [simp]: "length (fmat_vec M v) = length M"
  by (simp add: fmat_vec_def)

lemma fvscale_zero:
  "list_all is_fin u \<Longrightarrow> fvscale u (Fin 0) = replicate (length u) (Fin 0)"
  by (induction u) (simp_all add: fvscale_def fmul_fin_zero)

lemma fvadd_zeros: "fvadd (replicate n (Fin 0)) (replicate n (Fin 0)) = replicate n (Fin 0)"
  by (induction n) (simp_all add: fvadd_def)

lemma fvadd_zeros_right:
  "list_all representable u \<Longrightarrow> fvadd u (replicate (length u) (Fin 0)) = u"
  by (induction u) (simp_all add: fvadd_def fadd_zero)

lemma fdot_zeros: "list_all is_fin r \<Longrightarrow> fdot r (replicate n (Fin 0)) = Fin 0"
proof (induction r arbitrary: n)
  case Nil
  then show ?case by (simp add: fdot_def)
next
  case (Cons a r)
  show ?case
  proof (cases n)
    case 0
    then show ?thesis by (simp add: fdot_def)
  next
    case (Suc m)
    have "fdot r (replicate m (Fin 0)) = Fin 0"
      using Cons by simp
    then show ?thesis
      using Cons.prems Suc by (simp add: fdot_def fmul_fin_zero)
  qed
qed

lemma fmat_vec_zeros:
  "list_all (list_all is_fin) M \<Longrightarrow> fmat_vec M (replicate n (Fin 0)) = replicate (length M) (Fin 0)"
  by (induction M) (simp_all add: fmat_vec_def fdot_zeros)

lemma fold_invariant:
  "P a \<Longrightarrow> (\<And>x b. x \<in> set xs \<Longrightarrow> P b \<Longrightarrow> P (f x b)) \<Longrightarrow> P (fold f xs a)"
  by (induction xs arbitrary: a) simp_all

lemma fwarpImage_nth:
  "y < fst sz \<Longrightarrow> x < snd sz \<Longrightarrow> fwarpImage sample src sz w ! y ! x = sample src w (x, y)"
  by (simp add: fwarpImage_def)

lemma fzero_image_nth:
  "y < fst sz \<Longrightarrow> x < snd sz \<Longrightarrow> fzero_image sz ! y ! x = Fin 0"
  by (simp add: fzero_image_def)

lemma fmean_zero_image: "fmean (fzero_image sz) = Fin 0"
proof -
  have z: "foldl dadd (Fin 0) (replicate k (Fin 0)) = Fin 0" for k
    by (induction k) simp_all
  have "concat (replicate r (replicate k (Fin 0))) = replicate (r * k) (Fin 0)" for r k
    by (induction r) (simp_all add: replicate_add)
  then have c: "concat (fzero_image sz) = replicate (fst sz * snd sz) (Fin 0)"
    by (simp add: fzero_image_def)
  show ?thesis
    by (simp add: fmean_def c z Let_def)
qed

lemma faccumulate_zero_error:
  assumes err: "\<And>x y. y < fst sz \<Longrightarrow> x < snd sz \<Longrightarrow> err ! y ! x = Fin 0"
    and sd: "\<And>x y. y < fst sz \<Longrightarrow> x < snd sz \<Longrightarrow>
               list_all is_fin (fvec_mat [wgx ! y ! x, wgy ! y ! x] J n)"
  shows "fst (faccumulate J n sz wgx wgy err) = replicate n (Fin 0)
     \<and> length (snd (faccumulate J n sz wgx wgy err)) = n"
proof -
  let ?P = "\<lambda>acc :: fl list \<times> fl list list. fst acc = replicate n (Fin 0) \<and> length (snd acc) = n"
  have pixel: "?P (fpixel_step J n (wgx ! y) (wgy ! y) (err ! y) x acc)"
    if "y < fst sz" "x < snd sz" "?P acc" for x y acc
  proof -
    have "fvscale (fvec_mat [wgx ! y ! x, wgy ! y ! x] J n) (Fin 0) = replicate n (Fin 0)"
      using fvscale_zero[OF sd[OF that(1,2)]] by simp
    then show ?thesis
      using that(3) err[OF that(1,2)] by (simp add: fpixel_step_def Let_def fvadd_zeros)
  qed
  have row: "?P (frow_step J n (snd sz) wgx wgy err y acc)" if "y < fst sz" "?P acc" for y acc
    unfolding frow_step_def
    by (rule fold_invariant[where P = ?P, OF that(2)]) (simp add: pixel that(1))
  have "?P (faccumulate J n sz wgx wgy err)"
    unfolding faccumulate_def
    by (rule fold_invariant[where P = ?P]) (simp_all add: row fvzeros_def fmzeros_def)
  then show ?thesis .
qed

lemma falign_unfold:
  assumes "fprepared E"
  shows "falign sample jacobian_of matx_inv E w =
      (case fsetParameters w (fvadd (fgetParameters w)
              (fmat_vec (matx_inv (snd (faccumulated sample jacobian_of E w)))
                 (fst (faccumulated sample jacobian_of E w)))) of
         Inl e \<Rightarrow> Inl e
       | Inr w' \<Rightarrow> Inr (frewritten sample E w, w',
           fmean (ferrorImage (frewritten sample E w))))"
proof -
  have ok: "fsizes_ok E"
    using assms by (simp add: fprepared_def)
  then have sz: "img_size (fwarpedTarget E) = img_size (ftemplate E)"
    "img_size (fwarpedGradX E) = img_size (ftemplate E)"
    "img_size (fwarpedGradY E) = img_size (ftemplate E)"
    by (simp_all add: fsizes_ok_def)
  show ?thesis
    unfolding falign_def Let_def sz faccumulated_def
    by (simp add: ok frewritten_def cong: sum.case_cong)
qed


section \<open>Facts of the examples\<close>

lemma ex_inv_length: "length (ex_inv M) = length M"
  by (simp add: ex_inv_def split: list.splits)

lemma ex_sample_at:
  "ex_sample img (real x, real y) =
     (if y < length img \<and> x < length (img ! y) then img ! y ! x else 0)"
  by (simp add: ex_sample_def)

lemma pixels_2_2: "pixels (2, 2) = [(0, 0), (1, 0), (0, 1), (1, 1)]"
  by (simp add: pixels_def upt_conv_Cons del: upt_Suc)

lemma pixels_1_2: "pixels (Suc 0, 2) = [(0, 0), (1, 0)]"
  by (simp add: pixels_def upt_conv_Cons del: upt_Suc)

lemma pixels_2_1: "pixels (2, Suc 0) = [(0, 0), (0, 1)]"
  by (simp add: pixels_def upt_conv_Cons del: upt_Suc)

lemma ex_prepared: "prepared ex_engine"
  by (simp add: prepared_def rect_def sizes_ok_def img_size_def ex_engine_def)

lemma ex_aligned_prepared: "prepared ex_aligned"
  by (simp add: prepared_def rect_def sizes_ok_def img_size_def ex_engine_def ex_aligned_def)

lemma ex_flat_prepared: "prepared ex_flat"
  by (simp add: prepared_def rect_def sizes_ok_def img_size_def ex_flat_def)

lemma ex_euclid_prepared: "prepared ex_euclid_engine"
  by (simp add: prepared_def rect_def sizes_ok_def img_size_def ex_euclid_engine_def)

lemma ex_wf: "wf_warp ex_warp"
  by (simp add: wf_warp_def ex_warp_def)

lemma ex_euclid_wf: "wf_warp ex_euclid_warp"
  by (simp add: wf_warp_def ex_euclid_warp_def)

lemma ex_size: "img_size (template ex_engine) = (2, 2)"
  by (simp add: img_size_def ex_engine_def)

lemma ex_aligned_size: "img_size (template ex_aligned) = (2, 2)"
  by (simp add: img_size_def ex_engine_def ex_aligned_def)

lemma ex_flat_size: "img_size (template ex_flat) = (Suc 0, 2)"
  by (simp add: img_size_def ex_flat_def)

lemma ex_euclid_size: "img_size (template ex_euclid_engine) = (2, Suc 0)"
  by (simp add: img_size_def ex_euclid_engine_def)

lemma ex_apply: "warp_apply ex_warp (real x, real y) = (real x, real y)"
  by (simp add: warp_apply_def ex_warp_def)

lemma ex_euclid_apply:
  "warp_apply ex_euclid_warp (real x, real y) = (real (Suc x), real y)"
  by (simp add: warp_apply_def ex_euclid_warp_def rotation_def mat_vec_def)

lemma ex_resampled:
  "resampled ex_sample img ex_warp (x, y) =
     (if y < length img \<and> x < length (img ! y) then img ! y ! x else 0)"
  by (simp add: resampled_def ex_apply ex_sample_at)

lemma ex_euclid_resampled:
  "resampled ex_sample img ex_euclid_warp (x, y) =
     (if y < length img \<and> Suc x < length (img ! y) then img ! y ! Suc x else 0)"
  unfolding resampled_def fst_conv snd_conv ex_euclid_apply ex_sample_at ..

lemma ex_warpImage_2_2:
  "warpImage ex_sample [[a0, a1, a2], [b0, b1, b2], [c0, c1, c2]] (2, 2) ex_warp =
     [[a0, a1], [b0, b1]]"
  by (simp add: warpImage_def ex_apply ex_sample_at upt_conv_Cons del: upt_Suc)

lemma ex_warpImage_1_2:
  "warpImage ex_sample [[a0, a1, a2]] (Suc 0, 2) ex_warp = [[a0, a1]]"
  by (simp add: warpImage_def ex_apply ex_sample_at upt_conv_Cons del: upt_Suc)

lemma ex_warpImage_2_1:
  "warpImage ex_sample [[a0, a1, a2], [b0, b1, b2]] (2, Suc 0) ex_euclid_warp = [[a1], [b1]]"
  unfolding warpImage_def ex_euclid_apply ex_sample_at
  by (simp add: upt_conv_Cons del: upt_Suc)

lemma vec_mat_id2: "vec_mat [a, b] [[1, 0], [0, 1]] 2 = [a, b]"
  by (simp add: vec_mat_def mat_col_def upt_conv_Cons del: upt_Suc)

lemma vec_mat_2_3:
  "vec_mat [a, b] [[j00, j01, j02], [j10, j11, j12]] 3 =
     [a * j00 + b * j10, a * j01 + b * j11, a * j02 + b * j12]"
  by (simp add: vec_mat_def mat_col_def upt_conv_Cons del: upt_Suc)

lemma hessian_sum_rows:
  "hessian_sum n sd ps =
     map (\<lambda>i. map (\<lambda>j. sum_list (map (\<lambda>s. s ! i * s ! j) (map sd ps))) [0..<n]) [0..<n]"
  by (simp add: hessian_sum_def comp_def)

lemma rhs_sum_rows:
  "rhs_sum n sd e ps =
     map (\<lambda>i. sum_list (map (\<lambda>d. fst d ! i * snd d) (zip (map sd ps) (map e ps)))) [0..<n]"
  by (simp add: rhs_sum_def zip_map_map zip_same_conv_map comp_def)

lemma ex_sd:
  "map (sd_at ex_sample (ex_jacobian0 ex_warp) ex_engine ex_warp) (pixels (2, 2)) =
     [[0, 0], [1, 0], [0, 1], [1, 1]]"
  by (simp add: pixels_2_2 sd_at_def ex_resampled ex_jacobian0_def jacobian_def)
     (simp add: ex_engine_def ex_warp_def vec_mat_id2)

lemma ex_err:
  "map (error_at ex_sample ex_engine ex_warp) (pixels (2, 2)) = [1, 1, 2, 3]"
  by (simp add: pixels_2_2 error_at_def ex_resampled) (simp add: ex_engine_def)

lemma ex_hessian:
  "hessian_sum 2 (sd_at ex_sample (ex_jacobian0 ex_warp) ex_engine ex_warp) (pixels (2, 2)) =
     [[2, 1], [1, 2]]"
  by (simp add: hessian_sum_rows ex_sd upt_conv_Cons del: upt_Suc)

lemma ex_rhs:
  "rhs_sum 2 (sd_at ex_sample (ex_jacobian0 ex_warp) ex_engine ex_warp)
     (error_at ex_sample ex_engine ex_warp) (pixels (2, 2)) = [4, 5]"
  by (simp add: rhs_sum_rows ex_sd ex_err upt_conv_Cons del: upt_Suc)

lemma ex_n: "NParameters (kind ex_warp) = 2"
  by (simp add: ex_warp_def)

lemma ex_delta: "align_delta ex_sample ex_jacobian0 ex_inv ex_engine ex_warp = [1, 2]"
  by (simp add: align_delta_def Let_def ex_size ex_n ex_hessian ex_rhs ex_inv_def
      mat_vec_def)

lemma ex_rewritten:
  "rewritten ex_sample ex_engine ex_warp =
     ex_engine\<lparr>warpedTarget := [[0, 1], [1, 2]], warpedGradX := [[0, 1], [0, 1]],
       warpedGradY := [[0, 0], [1, 1]], errorImage := [[1, 1], [2, 3]]\<rparr>"
  by (simp add: rewritten_def ex_size) (simp add: ex_engine_def ex_warpImage_2_2 img_sub_def)


lemma ex_inv_len_all: "\<forall>M. length (ex_inv M) = length M"
  by (simp add: ex_inv_length)

lemma mean_2_2: "mean [[a, b], [c, d]] = (a + b + c + d) / 4"
  by (simp add: mean_def)

lemma ex_aligned_rewritten:
  "rewritten ex_sample ex_aligned ex_warp =
     ex_aligned\<lparr>warpedTarget := [[0, 1], [1, 2]], warpedGradX := [[0, 1], [0, 1]],
       warpedGradY := [[0, 0], [1, 1]], errorImage := [[0, 0], [0, 0]]\<rparr>"
  by (simp add: rewritten_def ex_aligned_size)
     (simp add: ex_aligned_def ex_engine_def ex_warpImage_2_2 img_sub_def)

lemma ex_euclid_n: "NParameters (kind ex_euclid_warp) = 3"
  by (simp add: ex_euclid_warp_def)

lemma ex_flat_sd:
  "map (sd_at ex_sample (ex_jacobian0 ex_warp) ex_flat ex_warp) (pixels (Suc 0, 2)) =
     [[0, 0], [1, 0]]"
  by (simp add: pixels_1_2 sd_at_def ex_resampled ex_jacobian0_def jacobian_def)
     (simp add: ex_flat_def ex_warp_def vec_mat_id2)

lemma ex_flat_err:
  "map (error_at ex_sample ex_flat ex_warp) (pixels (Suc 0, 2)) = [1, 1]"
  by (simp add: pixels_1_2 error_at_def ex_resampled) (simp add: ex_flat_def)

lemma ex_flat_hessian:
  "hessian_sum 2 (sd_at ex_sample (ex_jacobian0 ex_warp) ex_flat ex_warp) (pixels (Suc 0, 2)) =
     [[1, 0], [0, 0]]"
  by (simp add: hessian_sum_rows ex_flat_sd upt_conv_Cons del: upt_Suc)

lemma ex_flat_rhs:
  "rhs_sum 2 (sd_at ex_sample (ex_jacobian0 ex_warp) ex_flat ex_warp)
     (error_at ex_sample ex_flat ex_warp) (pixels (Suc 0, 2)) = [1, 0]"
  by (simp add: rhs_sum_rows ex_flat_sd ex_flat_err upt_conv_Cons del: upt_Suc)

lemma ex_flat_rewritten:
  "rewritten ex_sample ex_flat ex_warp =
     ex_flat\<lparr>warpedTarget := [[0, 1]], warpedGradX := [[0, 1]],
       warpedGradY := [[0, 0]], errorImage := [[1, 1]]\<rparr>"
  by (simp add: rewritten_def ex_flat_size) (simp add: ex_flat_def ex_warpImage_1_2 img_sub_def)

lemma ex_flat_mean_error: "mean_error ex_sample ex_flat ex_warp = 1"
  by (simp add: mean_error_def Let_def ex_flat_size)
     (simp add: pixels_1_2 error_at_def ex_resampled ex_flat_def)

lemma det_flat: "det [[1, 0], [0, 0]] = 0"
  by (simp add: upt_conv_Cons del: upt_Suc)

lemma ex_euclid_jacobian:
  "jacobian ex_euclid_warp (real x, real y) = [[1, 0, - real y], [0, 1, real x]]"
  by (simp add: jacobian_def ex_euclid_warp_def)

lemma ex_euclid_grads:
  "resampled ex_sample (gradX ex_euclid_engine) ex_euclid_warp (0, 0) = 1"
  "resampled ex_sample (gradX ex_euclid_engine) ex_euclid_warp (0, Suc 0) = 1"
  "resampled ex_sample (gradY ex_euclid_engine) ex_euclid_warp (0, 0) = 0"
  "resampled ex_sample (gradY ex_euclid_engine) ex_euclid_warp (0, Suc 0) = 0"
  by (simp_all add: ex_euclid_resampled ex_euclid_engine_def)

lemma ex_euclid_sd_pointwise:
  "sd_pointwise ex_sample ex_euclid_engine ex_euclid_warp (0, 0) = [1, 0, 0]"
  "sd_pointwise ex_sample ex_euclid_engine ex_euclid_warp (0, Suc 0) = [1, 0, - 1]"
  using ex_euclid_jacobian[of 0 0] ex_euclid_jacobian[of 0 1]
  by (simp_all add: sd_pointwise_def sd_at_def ex_euclid_grads ex_euclid_n vec_mat_2_3)

lemma ex_euclid_sd_code:
  "sd_at ex_sample J ex_euclid_engine ex_euclid_warp (0, 0) = vec_mat [1, 0] J 3"
  "sd_at ex_sample J ex_euclid_engine ex_euclid_warp (0, Suc 0) = vec_mat [1, 0] J 3"
  by (simp_all add: sd_at_def ex_euclid_grads ex_euclid_n)

lemma ex_euclid_err:
  "error_at ex_sample ex_euclid_engine ex_euclid_warp (0, 0) = 1"
  "error_at ex_sample ex_euclid_engine ex_euclid_warp (0, Suc 0) = 1"
  by (simp_all add: error_at_def ex_euclid_resampled) (simp_all add: ex_euclid_engine_def)

lemma ex_euclid_accumulate:
  "accumulate (ex_jacobian0 ex_euclid_warp) 3 (2, Suc 0)
     (warpImage ex_sample (gradX ex_euclid_engine) (2, Suc 0) ex_euclid_warp)
     (warpImage ex_sample (gradY ex_euclid_engine) (2, Suc 0) ex_euclid_warp)
     (img_sub (template ex_euclid_engine)
        (warpImage ex_sample (target ex_euclid_engine) (2, Suc 0) ex_euclid_warp)) =
   ([2, 0, 0], [[2, 0, 0], [0, 0, 0], [0, 0, 0]])"
proof -
  have J: "ex_jacobian0 ex_euclid_warp = [[1, 0, 0], [0, 1, 0]]"
    using ex_euclid_jacobian[of 0 0] by (simp add: ex_jacobian0_def)
  have imgs: "warpImage ex_sample (gradX ex_euclid_engine) (2, Suc 0) ex_euclid_warp = [[1], [1]]"
    "warpImage ex_sample (gradY ex_euclid_engine) (2, Suc 0) ex_euclid_warp = [[0], [0]]"
    "img_sub (template ex_euclid_engine)
        (warpImage ex_sample (target ex_euclid_engine) (2, Suc 0) ex_euclid_warp) = [[1], [1]]"
    by (simp_all add: ex_euclid_engine_def ex_warpImage_2_1 img_sub_def)
  have z: "vzeros 3 = [0, 0, 0]" "mzeros 3 = [[0, 0, 0], [0, 0, 0], [0, 0, 0]]"
    by (simp_all add: vzeros_def mzeros_def numeral_3_eq_3)
  show ?thesis
    by (simp add: imgs J z accumulate_def row_step_def pixel_step_def Let_def vec_mat_2_3
        vadd_def madd_def vscale_def outer_def upt_conv_Cons del: upt_Suc)
qed

lemma ex_euclid_align:
  "align ex_sample ex_jacobian0 matx_inv ex_euclid_engine ex_euclid_warp =
     (case setParameters ex_euclid_warp
             (vadd (getParameters ex_euclid_warp)
                (mat_vec (matx_inv [[2, 0, 0], [0, 0, 0], [0, 0, 0]]) [2, 0, 0])) of
        Inl e \<Rightarrow> Inl e
      | Inr w' \<Rightarrow>
          Inr (ex_euclid_engine\<lparr>warpedTarget := [[1], [1]], warpedGradX := [[1], [1]],
                 warpedGradY := [[0], [0]], errorImage := [[1], [1]]\<rparr>, w', 1))"
proof -
  have ok: "sizes_ok ex_euclid_engine"
    using ex_euclid_prepared by (simp add: prepared_def)
  have sz: "img_size (warpedTarget ex_euclid_engine) = (2, Suc 0)"
    "img_size (warpedGradX ex_euclid_engine) = (2, Suc 0)"
    "img_size (warpedGradY ex_euclid_engine) = (2, Suc 0)"
    using ok by (simp_all add: sizes_ok_def ex_euclid_size)
  have imgs: "warpImage ex_sample (gradX ex_euclid_engine) (2, Suc 0) ex_euclid_warp = [[1], [1]]"
    "warpImage ex_sample (gradY ex_euclid_engine) (2, Suc 0) ex_euclid_warp = [[0], [0]]"
    "warpImage ex_sample (target ex_euclid_engine) (2, Suc 0) ex_euclid_warp = [[1], [1]]"
    "img_sub (template ex_euclid_engine) [[1], [1]] = [[1], [1]]"
    by (simp_all add: ex_euclid_engine_def ex_warpImage_2_1 img_sub_def)
  have acc: "accumulate [[1, 0, 0], [0, 1, 0]] 3 (2, Suc 0) [[1], [1]] [[0], [0]] [[1], [1]] =
      ([2, 0, 0], [[2, 0, 0], [0, 0, 0], [0, 0, 0]])"
    using ex_euclid_accumulate ex_euclid_jacobian[of 0 0]
    by (simp add: imgs ex_jacobian0_def)
  have J: "ex_jacobian0 ex_euclid_warp = [[1, 0, 0], [0, 1, 0]]"
    using ex_euclid_jacobian[of 0 0] by (simp add: ex_jacobian0_def)
  have m: "mean [[1], [1]] = 1"
    by (simp add: mean_def)
  show ?thesis
    unfolding align_def Let_def sz ex_euclid_size ex_euclid_n
    by (simp add: ok imgs J acc m cong: sum.case_cong)
qed


lemma pixels_3_3:
  "pixels (3, 3) = [(0, 0), (1, 0), (2, 0), (0, 1), (1, 1), (2, 1), (0, 2), (1, 2), (2, 2)]"
  by (simp add: pixels_def upt_conv_Cons del: upt_Suc)

lemma ex_square_prepared: "prepared ex_euclid_square"
  by (simp add: prepared_def rect_def sizes_ok_def img_size_def ex_euclid_square_def)

lemma ex_square_size: "img_size (template ex_euclid_square) = (3, 3)"
  by (simp add: img_size_def ex_euclid_square_def)

lemma ex_identity_n: "NParameters (kind ex_euclid_identity) = 3"
  by (simp add: ex_euclid_identity_def)

lemma ex_identity_apply:
  "warp_apply ex_euclid_identity (real x, real y) = (real x, real y)"
  by (simp add: warp_apply_def ex_euclid_identity_def rotation_def mat_vec_def)

lemma ex_identity_resampled:
  "resampled ex_sample img ex_euclid_identity (x, y) =
     (if y < length img \<and> x < length (img ! y) then img ! y ! x else 0)"
  unfolding resampled_def fst_conv snd_conv ex_identity_apply ex_sample_at ..

lemma ex_identity_jacobian:
  "jacobian ex_euclid_identity (real x, real y) = [[1, 0, - real y], [0, 1, real x]]"
  by (simp add: jacobian_def ex_euclid_identity_def)

lemma ex_square_warpImage:
  "warpImage ex_sample [[a0, a1, a2], [b0, b1, b2], [c0, c1, c2]] (3, 3) ex_euclid_identity =
     [[a0, a1, a2], [b0, b1, b2], [c0, c1, c2]]"
  unfolding warpImage_def ex_identity_apply ex_sample_at
  by (simp add: upt_conv_Cons del: upt_Suc)

lemma ex_square_grads:
  "map (\<lambda>p. (resampled ex_sample (gradX ex_euclid_square) ex_euclid_identity p,
             resampled ex_sample (gradY ex_euclid_square) ex_euclid_identity p))
     (pixels (3, 3)) =
   [(0, 0), (1, 0), (0, 0), (0, 1), (1, 1), (0, 1), (0, 0), (1, 0), (0, 0)]"
  unfolding pixels_3_3 by (simp add: ex_identity_resampled ex_euclid_square_def)

lemma ex_square_sd_pointwise:
  "map (sd_pointwise ex_sample ex_euclid_square ex_euclid_identity) (pixels (3, 3)) =
     [[0, 0, 0], [1, 0, 0], [0, 0, 0], [0, 1, 0], [1, 1, 0], [0, 1, 2],
      [0, 0, 0], [1, 0, - 2], [0, 0, 0]]"
proof -
  have j: "jacobian ex_euclid_identity (0, 0) = [[1, 0, 0], [0, 1, 0]]"
    "jacobian ex_euclid_identity (1, 0) = [[1, 0, 0], [0, 1, 1]]"
    "jacobian ex_euclid_identity (2, 0) = [[1, 0, 0], [0, 1, 2]]"
    "jacobian ex_euclid_identity (0, 1) = [[1, 0, - 1], [0, 1, 0]]"
    "jacobian ex_euclid_identity (1, 1) = [[1, 0, - 1], [0, 1, 1]]"
    "jacobian ex_euclid_identity (2, 1) = [[1, 0, - 1], [0, 1, 2]]"
    "jacobian ex_euclid_identity (0, 2) = [[1, 0, - 2], [0, 1, 0]]"
    "jacobian ex_euclid_identity (1, 2) = [[1, 0, - 2], [0, 1, 1]]"
    "jacobian ex_euclid_identity (2, 2) = [[1, 0, - 2], [0, 1, 2]]"
    using ex_identity_jacobian[of 0 0] ex_identity_jacobian[of 1 0] ex_identity_jacobian[of 2 0]
      ex_identity_jacobian[of 0 1] ex_identity_jacobian[of 1 1] ex_identity_jacobian[of 2 1]
      ex_identity_jacobian[of 0 2] ex_identity_jacobian[of 1 2] ex_identity_jacobian[of 2 2]
    by simp_all
  show ?thesis
    using ex_square_grads unfolding pixels_3_3
    by (simp add: sd_pointwise_def sd_at_def ex_identity_n j vec_mat_2_3)
qed

lemma ex_square_sd_code:
  "map (sd_at ex_sample (ex_jacobian0 ex_euclid_identity) ex_euclid_square ex_euclid_identity)
     (pixels (3, 3)) =
     [[0, 0, 0], [1, 0, 0], [0, 0, 0], [0, 1, 0], [1, 1, 0], [0, 1, 0],
      [0, 0, 0], [1, 0, 0], [0, 0, 0]]"
proof -
  have j: "ex_jacobian0 ex_euclid_identity = [[1, 0, 0], [0, 1, 0]]"
    using ex_identity_jacobian[of 0 0] by (simp add: ex_jacobian0_def)
  show ?thesis
    using ex_square_grads unfolding pixels_3_3
    by (simp add: sd_at_def ex_identity_n j vec_mat_2_3)
qed

lemma ex_square_err:
  "map (error_at ex_sample ex_euclid_square ex_euclid_identity) (pixels (3, 3)) =
     [0, 1, 0, 0, 0, 0, 0, 0, 0]"
  unfolding pixels_3_3
  by (simp add: error_at_def ex_identity_resampled ex_euclid_square_def)

lemma ex_square_hessian_spec:
  "hessian_sum 3 (sd_pointwise ex_sample ex_euclid_square ex_euclid_identity) (pixels (3, 3)) =
     [[3, 1, - 2], [1, 3, 2], [- 2, 2, 8]]"
  by (simp add: hessian_sum_rows ex_square_sd_pointwise upt_conv_Cons del: upt_Suc)

lemma ex_square_rhs_spec:
  "rhs_sum 3 (sd_pointwise ex_sample ex_euclid_square ex_euclid_identity)
     (error_at ex_sample ex_euclid_square ex_euclid_identity) (pixels (3, 3)) = [1, 0, 0]"
  by (simp add: rhs_sum_rows ex_square_sd_pointwise ex_square_err upt_conv_Cons del: upt_Suc)

lemma ex_square_hessian_code:
  "hessian_sum 3
     (sd_at ex_sample (ex_jacobian0 ex_euclid_identity) ex_euclid_square ex_euclid_identity)
     (pixels (3, 3)) = [[3, 1, 0], [1, 3, 0], [0, 0, 0]]"
  by (simp add: hessian_sum_rows ex_square_sd_code upt_conv_Cons del: upt_Suc)

lemma ex_square_rhs_code:
  "rhs_sum 3
     (sd_at ex_sample (ex_jacobian0 ex_euclid_identity) ex_euclid_square ex_euclid_identity)
     (error_at ex_sample ex_euclid_square ex_euclid_identity) (pixels (3, 3)) = [1, 0, 0]"
  by (simp add: rhs_sum_rows ex_square_sd_code ex_square_err upt_conv_Cons del: upt_Suc)

lemma ex_square_rewritten:
  "rewritten ex_sample ex_euclid_square ex_euclid_identity =
     ex_euclid_square\<lparr>warpedTarget := [[0, 1, 2], [1, 2, 3], [2, 3, 4]],
       warpedGradX := [[0, 1, 0], [0, 1, 0], [0, 1, 0]],
       warpedGradY := [[0, 0, 0], [1, 1, 1], [0, 0, 0]],
       errorImage := [[0, 1, 0], [0, 0, 0], [0, 0, 0]]\<rparr>"
  unfolding rewritten_def ex_square_size
  by (simp add: ex_euclid_square_def ex_square_warpImage img_sub_def)

lemma ex_square_align:
  "align ex_sample ex_jacobian0 matx_inv ex_euclid_square ex_euclid_identity =
     (case setParameters ex_euclid_identity
             (vadd (getParameters ex_euclid_identity)
                (mat_vec (matx_inv [[3, 1, 0], [1, 3, 0], [0, 0, 0]]) [1, 0, 0])) of
        Inl e \<Rightarrow> Inl e
      | Inr w' \<Rightarrow>
          Inr (ex_euclid_square\<lparr>warpedTarget := [[0, 1, 2], [1, 2, 3], [2, 3, 4]],
                 warpedGradX := [[0, 1, 0], [0, 1, 0], [0, 1, 0]],
                 warpedGradY := [[0, 0, 0], [1, 1, 1], [0, 0, 0]],
                 errorImage := [[0, 1, 0], [0, 0, 0], [0, 0, 0]]\<rparr>, w', 1 / 9))"
proof -
  have ok: "sizes_ok ex_euclid_square" and r: "rect (template ex_euclid_square)"
    using ex_square_prepared by (simp_all add: prepared_def)
  have sz: "img_size (warpedTarget ex_euclid_square) = img_size (template ex_euclid_square)"
    "img_size (warpedGradX ex_euclid_square) = img_size (template ex_euclid_square)"
    "img_size (warpedGradY ex_euclid_square) = img_size (template ex_euclid_square)"
    using ok by (simp_all add: sizes_ok_def)
  have acc: "accumulate (ex_jacobian0 ex_euclid_identity) (NParameters (kind ex_euclid_identity))
      (img_size (template ex_euclid_square))
      (warpImage ex_sample (gradX ex_euclid_square) (img_size (template ex_euclid_square))
         ex_euclid_identity)
      (warpImage ex_sample (gradY ex_euclid_square) (img_size (template ex_euclid_square))
         ex_euclid_identity)
      (img_sub (template ex_euclid_square)
         (warpImage ex_sample (target ex_euclid_square) (img_size (template ex_euclid_square))
            ex_euclid_identity)) =
      ([1, 0, 0], [[3, 1, 0], [1, 3, 0], [0, 0, 0]])"
    using accumulate_sums[OF r, where J = "ex_jacobian0 ex_euclid_identity"
        and w = ex_euclid_identity and sample = ex_sample]
    by (simp add: ex_identity_n ex_square_size ex_square_hessian_code ex_square_rhs_code)
  have "align ex_sample ex_jacobian0 matx_inv ex_euclid_square ex_euclid_identity =
     (case setParameters ex_euclid_identity
             (vadd (getParameters ex_euclid_identity)
                (mat_vec (matx_inv [[3, 1, 0], [1, 3, 0], [0, 0, 0]]) [1, 0, 0])) of
        Inl e \<Rightarrow> Inl e
      | Inr w' \<Rightarrow> Inr (rewritten ex_sample ex_euclid_square ex_euclid_identity, w',
          mean (errorImage (rewritten ex_sample ex_euclid_square ex_euclid_identity))))"
    unfolding align_def Let_def sz acc
    by (simp add: ok rewritten_def cong: sum.case_cong)
  moreover have "mean [[0, 1, 0], [0, 0, 0], [0, 0, 0]] = 1 / 9"
    by (simp add: mean_def)
  ultimately show ?thesis
    by (simp add: ex_square_rewritten cong: sum.case_cong)
qed

lemma ex_fsample_at:
  "ex_fsample img ex_fwarp (x, y) =
     (if y < length img \<and> x < length (img ! y) then img ! y ! x else Fin 0)"
  by (simp add: ex_fsample_def ex_fwarp_def)

lemma ex_fwarpImage_1_2:
  "fwarpImage ex_fsample [[a0, a1, a2]] (Suc 0, 2) ex_fwarp = [[a0, a1]]"
  by (simp add: fwarpImage_def ex_fsample_at upt_conv_Cons del: upt_Suc)

lemma ex_fwarpImage_2_2:
  "fwarpImage ex_fsample [[a0, a1, a2], [b0, b1, b2], [c0, c1, c2]] (2, 2) ex_fwarp =
     [[a0, a1], [b0, b1]]"
  by (simp add: fwarpImage_def ex_fsample_at upt_conv_Cons del: upt_Suc)

lemma ex_fwf: "fwf_warp ex_fwarp"
  by (simp add: fwf_warp_def ex_fwarp_def overflow_bound_def)

lemma ex_fn: "NParameters (fkind ex_fwarp) = 2"
  by (simp add: ex_fwarp_def)

lemma cv_inv22_length: "length (cv_inv22 M) = length M"
  by (simp add: cv_inv22_def Let_def split: list.splits)

lemma ex_big_facts:
  "ovf ex_big = Fin ex_big" "ovf (ex_big * ex_big) = PInf" "ex_big \<noteq> 0" "0 < ex_big"
  by (simp_all add: ovf_def overflow_bound_def ex_big_def)

lemma ex_overflow_prepared: "fprepared ex_overflow"
  by (simp add: fprepared_def rect_def fsizes_ok_def img_size_def ex_overflow_def)

lemma ex_overflow_size: "img_size (ftemplate ex_overflow) = (Suc 0, 2)"
  by (simp add: img_size_def ex_overflow_def)

lemma ex_overflow_rewritten:
  "frewritten ex_fsample ex_overflow ex_fwarp =
     ex_overflow\<lparr>fwarpedTarget := [[Fin 0, Fin ex_big]],
       fwarpedGradX := [[Fin 0, Fin ex_big]], fwarpedGradY := [[Fin 0, Fin 0]],
       ferrorImage := [[Fin 0, Fin 0]]\<rparr>"
  unfolding frewritten_def ex_overflow_size
  by (simp add: ex_overflow_def ex_fwarpImage_1_2 fimg_sub_def fsub_def)

lemma ex_overflow_accumulated:
  "faccumulated ex_fsample ex_fjacobian ex_overflow ex_fwarp =
     ([Fin 0, Fin 0], [[PInf, Fin 0], [Fin 0, Fin 0]])"
proof -
  have z: "fvzeros 2 = [Fin 0, Fin 0]" "fmzeros 2 = [[Fin 0, Fin 0], [Fin 0, Fin 0]]"
    by (simp_all add: fvzeros_def fmzeros_def numeral_2_eq_2)
  have sd0: "fvec_mat [Fin 0, Fin 0] [[Fin 1, Fin 0], [Fin 0, Fin 1]] 2 = [Fin 0, Fin 0]"
    by (simp add: fvec_mat_def mat_col_def fdot_def upt_conv_Cons del: upt_Suc)
  have sd1: "fvec_mat [Fin ex_big, Fin 0] [[Fin 1, Fin 0], [Fin 0, Fin 1]] 2 =
      [Fin ex_big, Fin 0]"
    by (simp add: fvec_mat_def mat_col_def fdot_def ex_big_facts upt_conv_Cons del: upt_Suc)
  have o0: "fouter [Fin 0, Fin 0] [Fin 0, Fin 0] = [[Fin 0, Fin 0], [Fin 0, Fin 0]]"
    by (simp add: fouter_def fdot_def)
  have o1: "fouter [Fin ex_big, Fin 0] [Fin ex_big, Fin 0] = [[PInf, Fin 0], [Fin 0, Fin 0]]"
    by (simp add: fouter_def fdot_def ex_big_facts)
  have imgs: "fwarpImage ex_fsample (fgradX ex_overflow) (Suc 0, 2) ex_fwarp =
      [[Fin 0, Fin ex_big]]"
    "fwarpImage ex_fsample (fgradY ex_overflow) (Suc 0, 2) ex_fwarp = [[Fin 0, Fin 0]]"
    "fimg_sub (ftemplate ex_overflow)
       (fwarpImage ex_fsample (ftarget ex_overflow) (Suc 0, 2) ex_fwarp) = [[Fin 0, Fin 0]]"
    by (simp_all add: ex_overflow_def ex_fwarpImage_1_2 fimg_sub_def fsub_def)
  show ?thesis
    unfolding faccumulated_def ex_overflow_size imgs ex_fn ex_fjacobian_def
      faccumulate_def frow_step_def z
    by (simp add: fpixel_step_def Let_def sd0 sd1 o0 o1 fvscale_def fvadd_def fmadd_def
        upt_conv_Cons del: upt_Suc)
qed

lemma ex_overflow_inverse:
  "cv_inv22 [[PInf, Fin 0], [Fin 0, Fin 0]] = [[NaN, NaN], [NaN, NaN]]"
  by (simp add: cv_inv22_def fsub_def Let_def)

lemma ex_overflow_delta:
  "fmat_vec [[NaN, NaN], [NaN, NaN]] [Fin 0, Fin 0] = [NaN, NaN]"
  by (simp add: fmat_vec_def fdot_def)

lemma fmean_zeros_1_2: "fmean [[Fin 0, Fin 0]] = Fin 0"
  by (simp add: fmean_def)

lemma ovf_numerals [simp]:
  "ovf 1 = Fin 1" "ovf 2 = Fin 2" "ovf 3 = Fin 3" "ovf 4 = Fin 4"
  "ovf (1 / 3) = Fin (1 / 3)" "ovf (2 / 3) = Fin (2 / 3)" "ovf (- (1 / 3)) = Fin (- (1 / 3))"
  by (simp_all add: ovf_def overflow_bound_def)

lemma ex_faligned_prepared: "fprepared ex_faligned"
  by (simp add: fprepared_def rect_def fsizes_ok_def img_size_def ex_faligned_def)

lemma ex_faligned_size: "img_size (ftemplate ex_faligned) = (2, 2)"
  by (simp add: img_size_def ex_faligned_def)

lemma ex_faligned_images:
  "fwarpImage ex_fsample (ftarget ex_faligned) (2, 2) ex_fwarp = [[Fin 0, Fin 1], [Fin 1, Fin 2]]"
  "fwarpImage ex_fsample (fgradX ex_faligned) (2, 2) ex_fwarp = [[Fin 0, Fin 1], [Fin 0, Fin 1]]"
  "fwarpImage ex_fsample (fgradY ex_faligned) (2, 2) ex_fwarp = [[Fin 0, Fin 0], [Fin 1, Fin 1]]"
  by (simp_all add: ex_faligned_def ex_fwarpImage_2_2)

lemma ex_faligned_error:
  "fimg_sub (ftemplate ex_faligned) [[Fin 0, Fin 1], [Fin 1, Fin 2]] =
     [[Fin 0, Fin 0], [Fin 0, Fin 0]]"
  by (simp add: ex_faligned_def fimg_sub_def fsub_def)

lemma fvec_mat_identity:
  "fvec_mat [Fin 0, Fin 0] [[Fin 1, Fin 0], [Fin 0, Fin 1]] 2 = [Fin 0, Fin 0]"
  "fvec_mat [Fin 1, Fin 0] [[Fin 1, Fin 0], [Fin 0, Fin 1]] 2 = [Fin 1, Fin 0]"
  "fvec_mat [Fin 0, Fin 1] [[Fin 1, Fin 0], [Fin 0, Fin 1]] 2 = [Fin 0, Fin 1]"
  "fvec_mat [Fin 1, Fin 1] [[Fin 1, Fin 0], [Fin 0, Fin 1]] 2 = [Fin 1, Fin 1]"
  by (simp_all add: fvec_mat_def mat_col_def fdot_def upt_conv_Cons del: upt_Suc)

lemma ex_faligned_accumulated:
  "faccumulated ex_fsample ex_fjacobian ex_faligned ex_fwarp =
     ([Fin 0, Fin 0], [[Fin 2, Fin 1], [Fin 1, Fin 2]])"
proof -
  have z: "fvzeros 2 = [Fin 0, Fin 0]" "fmzeros 2 = [[Fin 0, Fin 0], [Fin 0, Fin 0]]"
    by (simp_all add: fvzeros_def fmzeros_def numeral_2_eq_2)
  have o: "fouter [Fin 0, Fin 0] [Fin 0, Fin 0] = [[Fin 0, Fin 0], [Fin 0, Fin 0]]"
    "fouter [Fin 1, Fin 0] [Fin 1, Fin 0] = [[Fin 1, Fin 0], [Fin 0, Fin 0]]"
    "fouter [Fin 0, Fin 1] [Fin 0, Fin 1] = [[Fin 0, Fin 0], [Fin 0, Fin 1]]"
    "fouter [Fin 1, Fin 1] [Fin 1, Fin 1] = [[Fin 1, Fin 1], [Fin 1, Fin 1]]"
    by (simp_all add: fouter_def fdot_def)
  show ?thesis
    unfolding faccumulated_def ex_faligned_size ex_faligned_images ex_faligned_error ex_fn
      ex_fjacobian_def faccumulate_def frow_step_def z
    by (simp add: fpixel_step_def Let_def fvec_mat_identity o fvscale_def fvadd_def fmadd_def
        upt_conv_Cons del: upt_Suc)
qed

lemma ex_faligned_inverse:
  "cv_inv22 [[Fin 2, Fin 1], [Fin 1, Fin 2]] =
     [[Fin (2 / 3), Fin (- (1 / 3))], [Fin (- (1 / 3)), Fin (2 / 3)]]"
  by (simp add: cv_inv22_def fsub_def Let_def)

lemma ex_faligned_rewritten:
  "frewritten ex_fsample ex_faligned ex_fwarp =
     ex_faligned\<lparr>fwarpedTarget := [[Fin 0, Fin 1], [Fin 1, Fin 2]],
       fwarpedGradX := [[Fin 0, Fin 1], [Fin 0, Fin 1]],
       fwarpedGradY := [[Fin 0, Fin 0], [Fin 1, Fin 1]],
       ferrorImage := [[Fin 0, Fin 0], [Fin 0, Fin 0]]\<rparr>"
  unfolding frewritten_def ex_faligned_size ex_faligned_images ex_faligned_error ..

text \<open>On the first session the engine on the real numbers and the engine on the floating
  point numbers take the same step: the parameters become \<open>(1, 2)\<close> and the mean error
  is \<open>7 / 4\<close>.\<close>

lemma ex_engine_align:
  "align ex_sample ex_jacobian0 ex_inv ex_engine ex_warp =
     Inr (ex_engine\<lparr>warpedTarget := [[0, 1], [1, 2]], warpedGradX := [[0, 1], [0, 1]],
            warpedGradY := [[0, 0], [1, 1]], errorImage := [[1, 1], [2, 3]]\<rparr>,
          \<lparr>kind = WARP_TRANSLATION, params = [1, 2]\<rparr>, 7 / 4)"
proof -
  have "mean [[1, 1], [2, 3]] = 7 / 4"
    by (simp add: mean_def)
  then show ?thesis
    using align_step[OF ex_prepared ex_wf ex_inv_len_all, of ex_sample ex_jacobian0]
    by (simp add: ex_delta ex_rewritten getParameters_def) (simp add: ex_warp_def)
qed

lemma ovf_in_range: "\<bar>r\<bar> < 2 ^ 100 \<Longrightarrow> ovf r = Fin r"
  by (auto simp: ovf_def overflow_bound_def)

lemma ex_fengine_prepared: "fprepared ex_fengine"
  by (simp add: fprepared_def rect_def fsizes_ok_def img_size_def ex_fengine_def ex_faligned_def)

lemma ex_fengine_size: "img_size (ftemplate ex_fengine) = (2, 2)"
  by (simp add: img_size_def ex_fengine_def)

lemma ex_fengine_images:
  "fwarpImage ex_fsample (ftarget ex_fengine) (2, 2) ex_fwarp = [[Fin 0, Fin 1], [Fin 1, Fin 2]]"
  "fwarpImage ex_fsample (fgradX ex_fengine) (2, 2) ex_fwarp = [[Fin 0, Fin 1], [Fin 0, Fin 1]]"
  "fwarpImage ex_fsample (fgradY ex_fengine) (2, 2) ex_fwarp = [[Fin 0, Fin 0], [Fin 1, Fin 1]]"
  by (simp_all add: ex_fengine_def ex_faligned_def ex_fwarpImage_2_2)

lemma ex_fengine_error:
  "fimg_sub (ftemplate ex_fengine) [[Fin 0, Fin 1], [Fin 1, Fin 2]] =
     [[Fin 1, Fin 1], [Fin 2, Fin 3]]"
  by (simp add: ex_fengine_def fimg_sub_def fsub_def ovf_in_range)

lemma ex_fengine_accumulated:
  "faccumulated ex_fsample ex_fjacobian ex_fengine ex_fwarp =
     ([Fin 4, Fin 5], [[Fin 2, Fin 1], [Fin 1, Fin 2]])"
proof -
  have z: "fvzeros 2 = [Fin 0, Fin 0]" "fmzeros 2 = [[Fin 0, Fin 0], [Fin 0, Fin 0]]"
    by (simp_all add: fvzeros_def fmzeros_def numeral_2_eq_2)
  have o: "fouter [Fin 0, Fin 0] [Fin 0, Fin 0] = [[Fin 0, Fin 0], [Fin 0, Fin 0]]"
    "fouter [Fin 1, Fin 0] [Fin 1, Fin 0] = [[Fin 1, Fin 0], [Fin 0, Fin 0]]"
    "fouter [Fin 0, Fin 1] [Fin 0, Fin 1] = [[Fin 0, Fin 0], [Fin 0, Fin 1]]"
    "fouter [Fin 1, Fin 1] [Fin 1, Fin 1] = [[Fin 1, Fin 1], [Fin 1, Fin 1]]"
    by (simp_all add: fouter_def fdot_def)
  show ?thesis
    unfolding faccumulated_def ex_fengine_size ex_fengine_images ex_fengine_error ex_fn
      ex_fjacobian_def faccumulate_def frow_step_def z
    by (simp add: fpixel_step_def Let_def fvec_mat_identity o fvscale_def fvadd_def fmadd_def
        ovf_in_range upt_conv_Cons del: upt_Suc)
qed

lemma ex_fengine_align:
  "falign ex_fsample ex_fjacobian cv_inv22 ex_fengine ex_fwarp =
     Inr (ex_fengine\<lparr>fwarpedTarget := [[Fin 0, Fin 1], [Fin 1, Fin 2]],
            fwarpedGradX := [[Fin 0, Fin 1], [Fin 0, Fin 1]],
            fwarpedGradY := [[Fin 0, Fin 0], [Fin 1, Fin 1]],
            ferrorImage := [[Fin 1, Fin 1], [Fin 2, Fin 3]]\<rparr>,
          \<lparr>fkind = WARP_TRANSLATION, fparams = [Fin 1, Fin 2]\<rparr>, Fin (7 / 4))"
proof -
  have rw: "frewritten ex_fsample ex_fengine ex_fwarp =
     ex_fengine\<lparr>fwarpedTarget := [[Fin 0, Fin 1], [Fin 1, Fin 2]],
            fwarpedGradX := [[Fin 0, Fin 1], [Fin 0, Fin 1]],
            fwarpedGradY := [[Fin 0, Fin 0], [Fin 1, Fin 1]],
            ferrorImage := [[Fin 1, Fin 1], [Fin 2, Fin 3]]\<rparr>"
    unfolding frewritten_def ex_fengine_size ex_fengine_images ex_fengine_error ..
  have d: "fmat_vec [[Fin (2 / 3), Fin (- (1 / 3))], [Fin (- (1 / 3)), Fin (2 / 3)]]
      [Fin 4, Fin 5] = [Fin 1, Fin 2]"
    by (simp add: fmat_vec_def fdot_def ovf_in_range)
  have m: "fmean [[Fin 1, Fin 1], [Fin 2, Fin 3]] = Fin (7 / 4)"
    by (simp add: fmean_def ovf_in_range)
  show ?thesis
    unfolding falign_unfold[OF ex_fengine_prepared] ex_fengine_accumulated rw
    by (simp add: ex_faligned_inverse d m fsetParameters_def fgetParameters_def fvadd_def
        ex_fwarp_def ovf_in_range)
qed


section \<open>The claims\<close>

text \<open>
  Claim C1. One \<open>align\<close> call is one Gauss-Newton step, for every warp: with
  \<open>Hessian = \<Sigma> sd(p)\<^sup>t sd(p)\<close> and \<open>rhs = \<Sigma> sd(p)\<^sup>t error(p)\<close> over the pixels of the
  template, it sets the parameters to \<open>getParameters() + Hessian\<^sup>-\<^sup>1 rhs\<close>. For the
  Euclidean warp the engine does not: the Hessian that the loop accumulates from the one
  matrix of \<open>w.jacobian()\<close> is singular, for every such matrix, every session and every
  parameter value. On the session of the 3 by 3 template, at the identity, the Hessian of
  the specification is \<open>[[3, 1, - 2], [1, 3, 2], [- 2, 2, 8]]\<close> of determinant 32, its right
  hand side is \<open>[1, 0, 0]\<close>, its step, the solution of the normal equations, is
  \<open>(5 / 8, - 3 / 8, 1 / 4)\<close>; \<open>align\<close>, with the Jacobian at the origin, updates the
  parameters by what the inversion returns on the singular
  \<open>[[3, 1, 0], [1, 3, 0], [0, 0, 0]]\<close>, times \<open>[1, 0, 0]\<close>.
\<close>

theorem C1_euclidean_step_not_gauss_newton:
  "det (hessian_sum 3 (sd_at sample J E \<lparr>kind = WARP_EUCLIDEAN, params = q\<rparr>) ps) = 0
   \<and> hessian_sum 3 (sd_pointwise ex_sample ex_euclid_square ex_euclid_identity)
        (pixels (img_size (template ex_euclid_square))) = [[3, 1, - 2], [1, 3, 2], [- 2, 2, 8]]
   \<and> det [[3, 1, - 2], [1, 3, 2], [- 2, 2, 8]] = 32
   \<and> rhs_sum 3 (sd_pointwise ex_sample ex_euclid_square ex_euclid_identity)
        (error_at ex_sample ex_euclid_square ex_euclid_identity)
        (pixels (img_size (template ex_euclid_square))) = [1, 0, 0]
   \<and> mat_vec [[3, 1, - 2], [1, 3, 2], [- 2, 2, 8]] [5 / 8, - 3 / 8, 1 / 4] = [1, 0, 0]
   \<and> gauss_newton_delta ex_sample matx_inv ex_euclid_square ex_euclid_identity =
       mat_vec (matx_inv [[3, 1, - 2], [1, 3, 2], [- 2, 2, 8]]) [1, 0, 0]
   \<and> det [[3, 1, 0], [1, 3, 0], [0, 0, 0]] = 0
   \<and> align ex_sample ex_jacobian0 matx_inv ex_euclid_square ex_euclid_identity =
       (case setParameters ex_euclid_identity
               (vadd (getParameters ex_euclid_identity)
                  (mat_vec (matx_inv [[3, 1, 0], [1, 3, 0], [0, 0, 0]]) [1, 0, 0])) of
          Inl e \<Rightarrow> Inl e
        | Inr w' \<Rightarrow>
            Inr (ex_euclid_square\<lparr>warpedTarget := [[0, 1, 2], [1, 2, 3], [2, 3, 4]],
                   warpedGradX := [[0, 1, 0], [0, 1, 0], [0, 1, 0]],
                   warpedGradY := [[0, 0, 0], [1, 1, 1], [0, 0, 0]],
                   errorImage := [[0, 1, 0], [0, 0, 0], [0, 0, 0]]\<rparr>, w', 1 / 9))"
proof -
  have H: "hessian_sum 3 (sd_pointwise ex_sample ex_euclid_square ex_euclid_identity)
        (pixels (img_size (template ex_euclid_square))) = [[3, 1, - 2], [1, 3, 2], [- 2, 2, 8]]"
    unfolding ex_square_size by (rule ex_square_hessian_spec)
  have r: "rhs_sum 3 (sd_pointwise ex_sample ex_euclid_square ex_euclid_identity)
        (error_at ex_sample ex_euclid_square ex_euclid_identity)
        (pixels (img_size (template ex_euclid_square))) = [1, 0, 0]"
    unfolding ex_square_size by (rule ex_square_rhs_spec)
  have d: "det [[3, 1, - 2], [1, 3, 2], [- 2, 2, 8]] = 32"
    "det [[3, 1, 0], [1, 3, 0], [0, 0, 0]] = 0"
    by (simp_all add: det3)
  have s: "mat_vec [[3, 1, - 2], [1, 3, 2], [- 2, 2, 8]] [5 / 8, - 3 / 8, 1 / 4] = [1, 0, 0]"
    by (simp add: mat_vec_def dot_def)
  have g: "gauss_newton_delta ex_sample matx_inv ex_euclid_square ex_euclid_identity =
       mat_vec (matx_inv [[3, 1, - 2], [1, 3, 2], [- 2, 2, 8]]) [1, 0, 0]"
    unfolding gauss_newton_delta_def Let_def ex_identity_n H r ..
  show ?thesis
    by (intro conjI one_jacobian_hessian_singular H d r s g ex_square_align)
qed


text \<open>
  Claim C2. In the linearisation each pixel has the steepest descent row
  \<open>sd(p) = [gradX(p), gradY(p)] \<cdot> jacobian(p)\<close>, with the Jacobian of a point dependent
  warp taken at the pixel itself. The loop of \<open>align\<close> multiplies every pixel by the one
  matrix of the call \<open>w.jacobian()\<close> made before the loop. For the Euclidean warp with the
  parameters \<open>(1, 0, 0)\<close>, on a template of the two pixels \<open>(0, 0)\<close> and \<open>(0, 1)\<close> whose
  warped gradient is \<open>(1, 0)\<close> at both: the Jacobians at the two pixels differ, the rows of
  the specification are \<open>[1, 0, 0]\<close> and \<open>[1, 0, - 1]\<close>, the rows of the loop are equal
  for every matrix \<open>J\<close> and so never both those of the specification, the sums over the
  rows of the specification are the Hessian \<open>[[2, 0, - 1], [0, 0, 0], [- 1, 0, 1]]\<close> and
  the right hand side \<open>[2, 0, - 1]\<close>, and \<open>align\<close>, with the Jacobian at the origin,
  inverts the Hessian \<open>[[2, 0, 0], [0, 0, 0], [0, 0, 0]]\<close> and multiplies it by
  \<open>[2, 0, 0]\<close>.
\<close>

theorem C2_one_jacobian_for_all_pixels:
  "pixels (img_size (template ex_euclid_engine)) = [(0, 0), (0, 1)]
   \<and> jacobian ex_euclid_warp (0, 0) = [[1, 0, 0], [0, 1, 0]]
   \<and> jacobian ex_euclid_warp (0, 1) = [[1, 0, - 1], [0, 1, 0]]
   \<and> map (sd_pointwise ex_sample ex_euclid_engine ex_euclid_warp) [(0, 0), (0, 1)] =
       [[1, 0, 0], [1, 0, - 1]]
   \<and> map (sd_at ex_sample J ex_euclid_engine ex_euclid_warp) [(0, 0), (0, 1)] =
       [vec_mat [1, 0] J 3, vec_mat [1, 0] J 3]
   \<and> \<not> (sd_at ex_sample J ex_euclid_engine ex_euclid_warp (0, 0) =
            sd_pointwise ex_sample ex_euclid_engine ex_euclid_warp (0, 0)
          \<and> sd_at ex_sample J ex_euclid_engine ex_euclid_warp (0, 1) =
            sd_pointwise ex_sample ex_euclid_engine ex_euclid_warp (0, 1))
   \<and> hessian_sum 3 (sd_pointwise ex_sample ex_euclid_engine ex_euclid_warp)
        [(0, 0), (0, 1)] = [[2, 0, - 1], [0, 0, 0], [- 1, 0, 1]]
   \<and> rhs_sum 3 (sd_pointwise ex_sample ex_euclid_engine ex_euclid_warp)
        (error_at ex_sample ex_euclid_engine ex_euclid_warp) [(0, 0), (0, 1)] = [2, 0, - 1]
   \<and> align ex_sample ex_jacobian0 matx_inv ex_euclid_engine ex_euclid_warp =
       (case setParameters ex_euclid_warp
               (vadd (getParameters ex_euclid_warp)
                  (mat_vec (matx_inv [[2, 0, 0], [0, 0, 0], [0, 0, 0]]) [2, 0, 0])) of
          Inl e \<Rightarrow> Inl e
        | Inr w' \<Rightarrow>
            Inr (ex_euclid_engine\<lparr>warpedTarget := [[1], [1]], warpedGradX := [[1], [1]],
                   warpedGradY := [[0], [0]], errorImage := [[1], [1]]\<rparr>, w', 1))"
proof -
  have px: "pixels (img_size (template ex_euclid_engine)) = [(0, 0), (0, 1)]"
    by (simp add: ex_euclid_size pixels_2_1)
  have j: "jacobian ex_euclid_warp (0, 0) = [[1, 0, 0], [0, 1, 0]]"
    "jacobian ex_euclid_warp (0, 1) = [[1, 0, - 1], [0, 1, 0]]"
    using ex_euclid_jacobian[of 0 0] ex_euclid_jacobian[of 0 1] by simp_all
  have H: "hessian_sum 3 (sd_pointwise ex_sample ex_euclid_engine ex_euclid_warp)
        [(0, 0), (0, 1)] = [[2, 0, - 1], [0, 0, 0], [- 1, 0, 1]]"
    by (simp add: hessian_sum_def ex_euclid_sd_pointwise upt_conv_Cons del: upt_Suc)
  have r: "rhs_sum 3 (sd_pointwise ex_sample ex_euclid_engine ex_euclid_warp)
        (error_at ex_sample ex_euclid_engine ex_euclid_warp) [(0, 0), (0, 1)] = [2, 0, - 1]"
    by (simp add: rhs_sum_def ex_euclid_sd_pointwise ex_euclid_err upt_conv_Cons del: upt_Suc)
  have rows: "map (sd_pointwise ex_sample ex_euclid_engine ex_euclid_warp) [(0, 0), (0, 1)] =
       [[1, 0, 0], [1, 0, - 1]]"
    "map (sd_at ex_sample J ex_euclid_engine ex_euclid_warp) [(0, 0), (0, 1)] =
       [vec_mat [1, 0] J 3, vec_mat [1, 0] J 3]"
    by (simp_all add: ex_euclid_sd_pointwise ex_euclid_sd_code)
  have differ: "\<not> (sd_at ex_sample J ex_euclid_engine ex_euclid_warp (0, 0) =
            sd_pointwise ex_sample ex_euclid_engine ex_euclid_warp (0, 0)
          \<and> sd_at ex_sample J ex_euclid_engine ex_euclid_warp (0, 1) =
            sd_pointwise ex_sample ex_euclid_engine ex_euclid_warp (0, 1))"
    by (simp add: ex_euclid_sd_pointwise ex_euclid_sd_code)
  show ?thesis
    by (intro conjI px j rows differ H r ex_euclid_align)
qed


text \<open>
  Claim C3. \<open>align\<close> inverts the Hessian without a test: where the accumulated Hessian is
  singular (its determinant is zero) the call still updates the parameters, by whatever
  the inversion returns times the right hand side, and returns the mean error; there is no
  error outcome.
\<close>

theorem C3_singular_hessian_unguarded:
  assumes "prepared E" and "wf_warp w" and "\<forall>M. length (matx_inv M) = length M"
    and "det (hessian_sum (NParameters (kind w)) (sd_at sample (jacobian_of w) E w)
               (pixels (img_size (template E)))) = 0"
  shows "align sample jacobian_of matx_inv E w =
     Inr (rewritten sample E w,
          w\<lparr>params := vadd (getParameters w)
             (mat_vec
                (matx_inv (hessian_sum (NParameters (kind w)) (sd_at sample (jacobian_of w) E w)
                   (pixels (img_size (template E)))))
                (rhs_sum (NParameters (kind w)) (sd_at sample (jacobian_of w) E w)
                   (error_at sample E w) (pixels (img_size (template E)))))\<rparr>,
          mean_error sample E w)"
proof -
  have "rect (template E)" using assms(1) by (simp add: prepared_def)
  then have "mean (errorImage (rewritten sample E w)) = mean_error sample E w"
    by (rule mean_of_errors)
  then show ?thesis
    by (simp add: align_step[OF assms(1,2,3)] align_delta_def Let_def)
qed

theorem C3_singular_hessian_unguarded_witness:
  "prepared ex_flat \<and> wf_warp ex_warp \<and> (\<forall>M. length (ex_inv M) = length M)
   \<and> hessian_sum (NParameters (kind ex_warp)) (sd_at ex_sample (ex_jacobian0 ex_warp)
        ex_flat ex_warp) (pixels (img_size (template ex_flat))) = [[1, 0], [0, 0]]
   \<and> det [[1, 0], [0, 0]] = 0
   \<and> align ex_sample ex_jacobian0 ex_inv ex_flat ex_warp =
       Inr (ex_flat\<lparr>warpedTarget := [[0, 1]], warpedGradX := [[0, 1]],
              warpedGradY := [[0, 0]], errorImage := [[1, 1]]\<rparr>,
            \<lparr>kind = WARP_TRANSLATION, params = [0, 0]\<rparr>, 1)"
proof -
  have H: "hessian_sum (NParameters (kind ex_warp))
      (sd_at ex_sample (ex_jacobian0 ex_warp) ex_flat ex_warp)
      (pixels (img_size (template ex_flat))) = [[1, 0], [0, 0]]"
    by (simp add: ex_n ex_flat_size ex_flat_hessian)
  have singular: "det (hessian_sum (NParameters (kind ex_warp))
      (sd_at ex_sample (ex_jacobian0 ex_warp) ex_flat ex_warp)
      (pixels (img_size (template ex_flat)))) = 0"
    by (simp only: H det_flat)
  have "align ex_sample ex_jacobian0 ex_inv ex_flat ex_warp =
     Inr (rewritten ex_sample ex_flat ex_warp,
          ex_warp\<lparr>params := vadd (getParameters ex_warp)
             (mat_vec
                (ex_inv (hessian_sum (NParameters (kind ex_warp))
                   (sd_at ex_sample (ex_jacobian0 ex_warp) ex_flat ex_warp)
                   (pixels (img_size (template ex_flat)))))
                (rhs_sum (NParameters (kind ex_warp))
                   (sd_at ex_sample (ex_jacobian0 ex_warp) ex_flat ex_warp)
                   (error_at ex_sample ex_flat ex_warp) (pixels (img_size (template ex_flat)))))\<rparr>,
          mean_error ex_sample ex_flat ex_warp)"
    by (rule C3_singular_hessian_unguarded[where E = ex_flat and w = ex_warp
          and matx_inv = ex_inv and sample = ex_sample and jacobian_of = ex_jacobian0,
          OF ex_flat_prepared ex_wf ex_inv_len_all singular])
  then have "align ex_sample ex_jacobian0 ex_inv ex_flat ex_warp =
       Inr (ex_flat\<lparr>warpedTarget := [[0, 1]], warpedGradX := [[0, 1]],
              warpedGradY := [[0, 0]], errorImage := [[1, 1]]\<rparr>,
            \<lparr>kind = WARP_TRANSLATION, params = [0, 0]\<rparr>, 1)"
    unfolding H
    by (simp add: ex_n ex_flat_size ex_flat_rhs ex_flat_rewritten ex_flat_mean_error ex_inv_def
        mat_vec_def getParameters_def)
       (simp add: ex_warp_def)
  then show ?thesis
    by (simp add: ex_flat_prepared ex_wf ex_inv_len_all H det_flat)
qed


text \<open>
  Claim C4, as amended. Zero-error fixed point: if the error image of a prepared engine is
  all zeros, and the steepest descent rows that the loop builds and the entries of the
  inverse that is computed for the accumulated Hessian are finite numbers, then \<open>align\<close>
  leaves the parameters of the warp as they are and returns 0.
\<close>

theorem C4_zero_error_fixed_point_finite:
  assumes "fprepared E" and "fwf_warp w" and "\<forall>M. length (matx_inv M) = length M"
    and "fimg_sub (ftemplate E) (fwarpImage sample (ftarget E) (img_size (ftemplate E)) w) =
           fzero_image (img_size (ftemplate E))"
    and "list_all (\<lambda>p. list_all is_fin (fsd_at sample (jacobian_of w) E w p))
           (pixels (img_size (ftemplate E)))"
    and "list_all (list_all is_fin) (matx_inv (snd (faccumulated sample jacobian_of E w)))"
  shows "falign sample jacobian_of matx_inv E w = Inr (frewritten sample E w, w, Fin 0)"
proof -
  let ?sz = "img_size (ftemplate E)"
  let ?n = "NParameters (fkind w)"
  let ?acc = "faccumulated sample jacobian_of E w"
  have ok: "fsizes_ok E"
    using assms(1) by (simp add: fprepared_def)
  then have sz: "img_size (fwarpedTarget E) = ?sz" "img_size (fwarpedGradX E) = ?sz"
    "img_size (fwarpedGradY E) = ?sz"
    by (simp_all add: fsizes_ok_def)
  have sd: "list_all is_fin
      (fvec_mat [fwarpImage sample (fgradX E) ?sz w ! y ! x,
                 fwarpImage sample (fgradY E) ?sz w ! y ! x] (jacobian_of w) ?n)"
    if "y < fst ?sz" "x < snd ?sz" for x y
  proof -
    have "(x, y) \<in> set (pixels ?sz)"
      using that by (simp add: in_pixels)
    then have "list_all is_fin (fsd_at sample (jacobian_of w) E w (x, y))"
      using assms(5) by (simp add: list_all_iff)
    then show ?thesis
      using that by (simp add: fsd_at_def fwarpImage_nth)
  qed
  have err: "fimg_sub (ftemplate E) (fwarpImage sample (ftarget E) ?sz w) ! y ! x = Fin 0"
    if "y < fst ?sz" "x < snd ?sz" for x y
    using that by (simp add: assms(4) fzero_image_nth)
  have acc: "fst ?acc = replicate ?n (Fin 0)" "length (snd ?acc) = ?n"
    unfolding faccumulated_def
    using faccumulate_zero_error[where sz = ?sz and J = "jacobian_of w" and n = ?n
        and wgx = "fwarpImage sample (fgradX E) ?sz w"
        and wgy = "fwarpImage sample (fgradY E) ?sz w"
        and err = "fimg_sub (ftemplate E) (fwarpImage sample (ftarget E) ?sz w)", OF err sd]
    by simp_all
  have "fmat_vec (matx_inv (snd ?acc)) (fst ?acc) = replicate ?n (Fin 0)"
    using assms(3) by (simp add: acc fmat_vec_zeros[OF assms(6)])
  moreover have "fvadd (fparams w) (replicate ?n (Fin 0)) = fparams w"
    using assms(2) fvadd_zeros_right[of "fparams w"] by (simp add: fwf_warp_def)
  ultimately have upd: "fvadd (fgetParameters w) (fmat_vec (matx_inv (snd ?acc)) (fst ?acc)) =
      fparams w"
    by (simp add: fgetParameters_def)
  have len: "length (fparams w) = ?n"
    using assms(2) by (simp add: fwf_warp_def)
  have m: "fmean (fimg_sub (ftemplate E) (fwarpImage sample (ftarget E) ?sz w)) = Fin 0"
    by (simp add: assms(4) fmean_zero_image)
  have m': "fmean (ferrorImage (frewritten sample E w)) = Fin 0"
    using m by (simp add: frewritten_def)
  show ?thesis
    unfolding falign_unfold[OF assms(1)] upd m' by (simp add: fsetParameters_def len)
qed

theorem C4_zero_error_fixed_point_finite_witness:
  "fprepared ex_faligned \<and> fwf_warp ex_fwarp \<and> (\<forall>M. length (cv_inv22 M) = length M)
   \<and> fimg_sub (ftemplate ex_faligned)
        (fwarpImage ex_fsample (ftarget ex_faligned) (img_size (ftemplate ex_faligned)) ex_fwarp) =
       fzero_image (img_size (ftemplate ex_faligned))
   \<and> list_all (\<lambda>p. list_all is_fin (fsd_at ex_fsample (ex_fjacobian ex_fwarp) ex_faligned ex_fwarp p))
        (pixels (img_size (ftemplate ex_faligned)))
   \<and> cv_inv22 (snd (faccumulated ex_fsample ex_fjacobian ex_faligned ex_fwarp)) =
       [[Fin (2 / 3), Fin (- (1 / 3))], [Fin (- (1 / 3)), Fin (2 / 3)]]
   \<and> falign ex_fsample ex_fjacobian cv_inv22 ex_faligned ex_fwarp =
       Inr (ex_faligned\<lparr>fwarpedTarget := [[Fin 0, Fin 1], [Fin 1, Fin 2]],
              fwarpedGradX := [[Fin 0, Fin 1], [Fin 0, Fin 1]],
              fwarpedGradY := [[Fin 0, Fin 0], [Fin 1, Fin 1]],
              ferrorImage := [[Fin 0, Fin 0], [Fin 0, Fin 0]]\<rparr>,
            \<lparr>fkind = WARP_TRANSLATION, fparams = [Fin 0, Fin 0]\<rparr>, Fin 0)"
proof -
  have len: "\<forall>M. length (cv_inv22 M) = length M"
    by (simp add: cv_inv22_length)
  have zero: "fimg_sub (ftemplate ex_faligned)
        (fwarpImage ex_fsample (ftarget ex_faligned) (img_size (ftemplate ex_faligned)) ex_fwarp) =
       fzero_image (img_size (ftemplate ex_faligned))"
    unfolding ex_faligned_size ex_faligned_images ex_faligned_error
    by (simp add: fzero_image_def numeral_2_eq_2)
  have sd: "list_all (\<lambda>p. list_all is_fin
        (fsd_at ex_fsample (ex_fjacobian ex_fwarp) ex_faligned ex_fwarp p))
        (pixels (img_size (ftemplate ex_faligned)))"
    unfolding ex_faligned_size pixels_2_2
    by (simp add: fsd_at_def ex_fn ex_fjacobian_def ex_fsample_at ex_faligned_def
        fvec_mat_identity)
  have inv: "cv_inv22 (snd (faccumulated ex_fsample ex_fjacobian ex_faligned ex_fwarp)) =
       [[Fin (2 / 3), Fin (- (1 / 3))], [Fin (- (1 / 3)), Fin (2 / 3)]]"
    by (simp add: ex_faligned_accumulated ex_faligned_inverse)
  have fin: "list_all (list_all is_fin)
      (cv_inv22 (snd (faccumulated ex_fsample ex_fjacobian ex_faligned ex_fwarp)))"
    unfolding inv by simp
  have "falign ex_fsample ex_fjacobian cv_inv22 ex_faligned ex_fwarp =
      Inr (frewritten ex_fsample ex_faligned ex_fwarp, ex_fwarp, Fin 0)"
    by (rule C4_zero_error_fixed_point_finite[where jacobian_of = ex_fjacobian,
          OF ex_faligned_prepared ex_fwf len zero sd fin])
  then have run: "falign ex_fsample ex_fjacobian cv_inv22 ex_faligned ex_fwarp =
       Inr (ex_faligned\<lparr>fwarpedTarget := [[Fin 0, Fin 1], [Fin 1, Fin 2]],
              fwarpedGradX := [[Fin 0, Fin 1], [Fin 0, Fin 1]],
              fwarpedGradY := [[Fin 0, Fin 0], [Fin 1, Fin 1]],
              ferrorImage := [[Fin 0, Fin 0], [Fin 0, Fin 0]]\<rparr>,
            \<lparr>fkind = WARP_TRANSLATION, fparams = [Fin 0, Fin 0]\<rparr>, Fin 0)"
    by (simp add: ex_faligned_rewritten) (simp add: ex_fwarp_def)
  show ?thesis
    by (intro conjI ex_faligned_prepared ex_fwf len zero sd inv run)
qed

text \<open>
  Claim C4 as stated fails where the Hessian leaves the range of \<open>float\<close>: the template
  equals the resampled target, the error image is all zeros, the square of the gradient
  \<open>2 ^ 64\<close> is an infinity, its product with zero in the determinant is not a number, so
  is every entry of the inverse and of the update, and \<open>align\<close> sets both parameters, which
  were zero, to NaN.
\<close>

theorem C4_zero_error_overflow_counterexample:
  "fprepared ex_overflow \<and> fwf_warp ex_fwarp
   \<and> fwarpImage ex_fsample (ftarget ex_overflow) (img_size (ftemplate ex_overflow)) ex_fwarp =
       ftemplate ex_overflow
   \<and> fimg_sub (ftemplate ex_overflow)
        (fwarpImage ex_fsample (ftarget ex_overflow) (img_size (ftemplate ex_overflow)) ex_fwarp) =
       [[Fin 0, Fin 0]]
   \<and> fparams ex_fwarp = [Fin 0, Fin 0]
   \<and> falign ex_fsample ex_fjacobian cv_inv22 ex_overflow ex_fwarp =
       Inr (ex_overflow\<lparr>fwarpedTarget := [[Fin 0, Fin ex_big]],
              fwarpedGradX := [[Fin 0, Fin ex_big]], fwarpedGradY := [[Fin 0, Fin 0]],
              ferrorImage := [[Fin 0, Fin 0]]\<rparr>,
            \<lparr>fkind = WARP_TRANSLATION, fparams = [NaN, NaN]\<rparr>, Fin 0)"
proof -
  have same: "fwarpImage ex_fsample (ftarget ex_overflow) (img_size (ftemplate ex_overflow))
      ex_fwarp = ftemplate ex_overflow"
    unfolding ex_overflow_size by (simp add: ex_overflow_def ex_fwarpImage_1_2)
  have zero: "fimg_sub (ftemplate ex_overflow)
        (fwarpImage ex_fsample (ftarget ex_overflow) (img_size (ftemplate ex_overflow)) ex_fwarp) =
       [[Fin 0, Fin 0]]"
    unfolding same by (simp add: ex_overflow_def fimg_sub_def fsub_def)
  have run: "falign ex_fsample ex_fjacobian cv_inv22 ex_overflow ex_fwarp =
       Inr (ex_overflow\<lparr>fwarpedTarget := [[Fin 0, Fin ex_big]],
              fwarpedGradX := [[Fin 0, Fin ex_big]], fwarpedGradY := [[Fin 0, Fin 0]],
              ferrorImage := [[Fin 0, Fin 0]]\<rparr>,
            \<lparr>fkind = WARP_TRANSLATION, fparams = [NaN, NaN]\<rparr>, Fin 0)"
    unfolding falign_unfold[OF ex_overflow_prepared] ex_overflow_accumulated
      ex_overflow_rewritten
    by (simp add: ex_overflow_inverse ex_overflow_delta fmean_zeros_1_2
        fsetParameters_def fgetParameters_def fvadd_def ex_fwarp_def)
  have p: "fparams ex_fwarp = [Fin 0, Fin 0]"
    by (simp add: ex_fwarp_def)
  show ?thesis
    by (intro conjI ex_overflow_prepared ex_fwf same zero p run)
qed





text \<open>
  Claim C6. The frame of \<open>align\<close>: the template, the target and the two gradients of the
  target are as before the call; the engine after the call is the engine before it with
  the four scratch buffers rewritten; it is prepared again, and any further call from it
  gives what the same call from the engine before would give.
\<close>

theorem C6_align_frame:
  assumes "prepared E" and "wf_warp w" and "\<forall>M. length (matx_inv M) = length M"
  shows "\<exists>E' w' r. align sample jacobian_of matx_inv E w = Inr (E', w', r)
     \<and> template E' = template E \<and> target E' = target E
     \<and> gradX E' = gradX E \<and> gradY E' = gradY E
     \<and> E' = E\<lparr>warpedTarget := warpedTarget E', warpedGradX := warpedGradX E',
              warpedGradY := warpedGradY E', errorImage := errorImage E'\<rparr>
     \<and> prepared E'
     \<and> (\<forall>w2. align sample jacobian_of matx_inv E' w2 = align sample jacobian_of matx_inv E w2)"
proof -
  have "rewritten sample E w =
      E\<lparr>warpedTarget := warpedTarget (rewritten sample E w),
        warpedGradX := warpedGradX (rewritten sample E w),
        warpedGradY := warpedGradY (rewritten sample E w),
        errorImage := errorImage (rewritten sample E w)\<rparr>"
    by (simp add: rewritten_def)
  then show ?thesis
    using rewritten_prepared[OF assms(1), of sample w] align_rewritten[OF assms(1)]
    by (simp add: align_step[OF assms] rewritten_frame)
qed

theorem C6_align_frame_witness:
  "prepared ex_engine \<and> wf_warp ex_warp \<and> (\<forall>M. length (ex_inv M) = length M)
   \<and> (\<exists>E' w' r. align ex_sample ex_jacobian0 ex_inv ex_engine ex_warp = Inr (E', w', r)
        \<and> template E' = [[1, 2], [3, 5]] \<and> target E' = [[0, 1, 2], [1, 2, 3], [2, 3, 4]]
        \<and> gradX E' = [[0, 1, 0], [0, 1, 0], [0, 1, 0]]
        \<and> gradY E' = [[0, 0, 0], [1, 1, 1], [0, 0, 0]]
        \<and> prepared E'
        \<and> (\<forall>w2. align ex_sample ex_jacobian0 ex_inv E' w2 =
                  align ex_sample ex_jacobian0 ex_inv ex_engine w2))"
proof -
  obtain E' w' r where
    "align ex_sample ex_jacobian0 ex_inv ex_engine ex_warp = Inr (E', w', r)"
    "template E' = template ex_engine" "target E' = target ex_engine"
    "gradX E' = gradX ex_engine" "gradY E' = gradY ex_engine" "prepared E'"
    "\<forall>w2. align ex_sample ex_jacobian0 ex_inv E' w2 =
           align ex_sample ex_jacobian0 ex_inv ex_engine w2"
    using C6_align_frame[OF ex_prepared ex_wf ex_inv_len_all, of ex_sample ex_jacobian0]
    by blast
  moreover have "template ex_engine = [[1, 2], [3, 5]]"
    "target ex_engine = [[0, 1, 2], [1, 2, 3], [2, 3, 4]]"
    "gradX ex_engine = [[0, 1, 0], [0, 1, 0], [0, 1, 0]]"
    "gradY ex_engine = [[0, 0, 0], [1, 1, 1], [0, 0, 0]]"
    by (simp_all add: ex_engine_def)
  ultimately show ?thesis
    using ex_prepared ex_wf ex_inv_len_all by metis
qed


text \<open>
  Claim C7. The translation warp maps every point \<open>p\<close> to \<open>p + (t_x, t_y)\<close>, for every
  parameter value. The Euclidean warp has the parameter order \<open>(t_x, t_y, \<theta>)\<close> and maps
  \<open>p\<close> to \<open>R(\<theta>) p + (t_x, t_y)\<close> with \<open>R(\<theta>) = [[cos \<theta>, - sin \<theta>], [sin \<theta>, cos \<theta>]]\<close>.
  The translation by \<open>(10, 5)\<close> maps \<open>(5, 5)\<close> to \<open>(15, 10)\<close>; the Euclidean warp with
  parameters \<open>(5, 5, \<pi>)\<close> maps \<open>(10, 15)\<close> to \<open>(-5, -10)\<close>, hence within one percent of it.
\<close>

theorem C7_warp_apply:
  "warp_apply \<lparr>kind = WARP_TRANSLATION, params = [tx, ty]\<rparr> (x, y) = (x + tx, y + ty)
   \<and> warp_apply \<lparr>kind = WARP_EUCLIDEAN, params = [tx, ty, \<theta>]\<rparr> (x, y) =
       (let q = vadd (mat_vec [[cos \<theta>, - sin \<theta>], [sin \<theta>, cos \<theta>]] [x, y]) [tx, ty]
        in (q ! 0, q ! 1))
   \<and> warp_apply \<lparr>kind = WARP_EUCLIDEAN, params = [tx, ty, \<theta>]\<rparr> (x, y) =
       (cos \<theta> * x - sin \<theta> * y + tx, sin \<theta> * x + cos \<theta> * y + ty)
   \<and> warp_apply \<lparr>kind = WARP_TRANSLATION, params = [10, 5]\<rparr> (5, 5) = (15, 10)
   \<and> warp_apply \<lparr>kind = WARP_EUCLIDEAN, params = [5, 5, pi]\<rparr> (10, 15) = (- 5, - 10)
   \<and> \<bar>fst (warp_apply \<lparr>kind = WARP_EUCLIDEAN, params = [5, 5, pi]\<rparr> (10, 15)) - (- 5)\<bar>
        \<le> 0.01 * 5
   \<and> \<bar>snd (warp_apply \<lparr>kind = WARP_EUCLIDEAN, params = [5, 5, pi]\<rparr> (10, 15)) - (- 10)\<bar>
        \<le> 0.01 * 10"
  by (simp add: warp_apply_def rotation_def mat_vec_def)


text \<open>
  Claim C8. The Jacobian of the translation warp is the 2 by 2 identity matrix at every
  point and for every parameter value.
\<close>

theorem C8_translation_jacobian_identity:
  "jacobian \<lparr>kind = WARP_TRANSLATION, params = ps\<rparr> p = [[1, 0], [0, 1]]"
  by (simp add: jacobian_def)


text \<open>
  Claim C9. After \<open>setIdentity\<close> every parameter of a warp of either kind is zero, there
  are \<open>NParameters\<close> of them, and \<open>apply\<close> maps every point to itself.
\<close>

theorem C9_identity_law:
  "getParameters (setIdentity w) = replicate (NParameters (kind w)) 0
   \<and> warp_apply (setIdentity w) p = p"
  by (cases "kind w"; cases p)
     (simp_all add: getParameters_def setIdentity_def warp_apply_def rotation_def
        mat_vec_def numeral_2_eq_2 numeral_3_eq_3)


text \<open>
  Claim C10. \<open>align\<close> changes the warp by one \<open>setParameters\<close> call, whose argument
  \<open>getParameters() + delta\<close> has \<open>NParameters\<close> entries, so that the call succeeds: the
  kind of the warp and the length of its parameter vector are kept.
\<close>

theorem C10_align_preserves_parameter_length:
  assumes "prepared E" and "wf_warp w" and "\<forall>M. length (matx_inv M) = length M"
  shows "\<exists>E' w' r. align sample jacobian_of matx_inv E w = Inr (E', w', r)
     \<and> setParameters w (vadd (getParameters w)
          (align_delta sample jacobian_of matx_inv E w)) = Inr w'
     \<and> length (vadd (getParameters w) (align_delta sample jacobian_of matx_inv E w)) =
          NParameters (kind w)
     \<and> kind w' = kind w
     \<and> length (getParameters w') = length (getParameters w)
     \<and> wf_warp w'"
proof -
  have len: "length (vadd (getParameters w)
      (align_delta sample jacobian_of matx_inv E w)) = NParameters (kind w)"
    using assms(2) by (simp add: delta_length[OF assms(3)] getParameters_def wf_warp_def)
  then show ?thesis
    using assms(2)
    by (simp add: align_step[OF assms] setParameters_def wf_warp_def getParameters_def)
qed

theorem C10_align_preserves_parameter_length_witness:
  "prepared ex_euclid_engine \<and> wf_warp ex_euclid_warp
   \<and> (\<forall>M. length (ex_inv M) = length M)
   \<and> (\<exists>E' w' r. align ex_sample ex_jacobian0 ex_inv ex_euclid_engine ex_euclid_warp =
          Inr (E', w', r)
        \<and> length (vadd (getParameters ex_euclid_warp)
             (align_delta ex_sample ex_jacobian0 ex_inv ex_euclid_engine
                ex_euclid_warp)) = 3
        \<and> kind w' = WARP_EUCLIDEAN \<and> length (getParameters w') = 3 \<and> wf_warp w')"
proof -
  have k: "kind ex_euclid_warp = WARP_EUCLIDEAN" "length (getParameters ex_euclid_warp) = 3"
    by (simp_all add: ex_euclid_warp_def getParameters_def)
  show ?thesis
    using C10_align_preserves_parameter_length[OF ex_euclid_prepared ex_euclid_wf
        ex_inv_len_all, of ex_sample ex_jacobian0]
    by (simp add: ex_euclid_prepared ex_euclid_wf ex_inv_len_all ex_euclid_n k) metis
qed

end
